theory Spec2Isabelle
  imports Complex_Main
begin

section \<open>A two-layer fully connected network: loss, gradients, training, prediction\<close>

text \<open>
  The development embeds \<^verbatim>\<open>cattern/neural_net.py\<close> (class \<^verbatim>\<open>TwoLayerNet\<close>).
  Conventions of the embedding:
  \<^item> a numpy array of float64 is a list (1-D) or a list of rows (2-D) of mathematical
    reals: rounding, overflow to \<^verbatim>\<open>inf\<close> and \<^verbatim>\<open>nan\<close> are not represented;
  \<^item> a 2-D array is represented by its rows, so an array with a zero dimension does not
    carry its other dimension; the theorems are about arrays with positive dimensions;
  \<^item> an exception raised by numpy or Python is a value \<open>Inl e\<close> of a sum type;
  \<^item> the interpreter is Python 3: \<^verbatim>\<open>/\<close> on two integers is true division;
  \<^item> the draws of \<^verbatim>\<open>np.random.choice\<close> are an input of the model.
\<close>

subsection \<open>Arrays and exceptions\<close>

type_synonym vec = "real list"
type_synonym matrix = "real list list"

datatype error = ValueError | IndexError | ZeroDivisionError

definition bind_e :: "error + 'a \<Rightarrow> ('a \<Rightarrow> error + 'b) \<Rightarrow> error + 'b" where
  "bind_e m f = (case m of Inl e \<Rightarrow> Inl e | Inr x \<Rightarrow> f x)"

fun mapM_e :: "('a \<Rightarrow> error + 'b) \<Rightarrow> 'a list \<Rightarrow> error + 'b list" where
  "mapM_e f [] = Inr []"
| "mapM_e f (x # xs) = bind_e (f x) (\<lambda>v. bind_e (mapM_e f xs) (\<lambda>vs. Inr (v # vs)))"

definition nrows :: "matrix \<Rightarrow> nat" where
  "nrows A = length A"

definition ncols :: "matrix \<Rightarrow> nat" where
  "ncols A = (case A of [] \<Rightarrow> 0 | r # _ \<Rightarrow> length r)"

text \<open>\<open>mat n m A\<close>: the array \<open>A\<close> has shape \<open>(n, m)\<close>.\<close>

definition mat :: "nat \<Rightarrow> nat \<Rightarrow> matrix \<Rightarrow> bool" where
  "mat n m A = (length A = n \<and> list_all (\<lambda>r. length r = m) A)"

definition dot :: "vec \<Rightarrow> vec \<Rightarrow> real" where
  "dot xs ys = sum_list (map2 (*) xs ys)"

definition col :: "matrix \<Rightarrow> nat \<Rightarrow> vec" where
  "col A j = map (\<lambda>r. r ! j) A"

text \<open>\<^verbatim>\<open>A.T\<close>\<close>

definition transpose_m :: "matrix \<Rightarrow> matrix" where
  "transpose_m A = map (col A) [0..<ncols A]"

text \<open>\<^verbatim>\<open>np.matmul(A, B)\<close> and \<^verbatim>\<open>A.dot(B)\<close> on 2-D arrays: the inner dimensions must agree.\<close>

definition matmul :: "matrix \<Rightarrow> matrix \<Rightarrow> error + matrix" where
  "matmul A B =
     (if ncols A \<noteq> nrows B then Inl ValueError
      else Inr (map (\<lambda>r. map (\<lambda>j. dot r (col B j)) [0..<ncols B]) A))"

text \<open>\<^verbatim>\<open>A + b\<close> for a 2-D \<open>A\<close> and a 1-D \<open>b\<close>, with numpy's broadcasting of the last axis.\<close>

definition add_rowvec :: "matrix \<Rightarrow> vec \<Rightarrow> error + matrix" where
  "add_rowvec A b =
     (if ncols A = length b then Inr (map (\<lambda>r. map2 (+) r b) A)
      else if length b = 1 then Inr (map (map (\<lambda>x. x + hd b)) A)
      else if ncols A = 1 then Inr (map (\<lambda>r. map (\<lambda>v. hd r + v) b) A)
      else Inl ValueError)"

text \<open>\<^verbatim>\<open>np.maximum(0, A)\<close>\<close>

definition relu :: "matrix \<Rightarrow> matrix" where
  "relu A = map (map (max 0)) A"

text \<open>\<^verbatim>\<open>A / n\<close> and \<^verbatim>\<open>c * A\<close>\<close>

definition div_scalar :: "matrix \<Rightarrow> nat \<Rightarrow> matrix" where
  "div_scalar A n = map (map (\<lambda>x. x / real n)) A"

definition scale :: "real \<Rightarrow> matrix \<Rightarrow> matrix" where
  "scale c A = map (map (\<lambda>x. c * x)) A"

definition scale_vec :: "real \<Rightarrow> vec \<Rightarrow> vec" where
  "scale_vec c v = map (\<lambda>x. c * x) v"

text \<open>\<^verbatim>\<open>np.ones((1, n))\<close>\<close>

definition ones_row :: "nat \<Rightarrow> matrix" where
  "ones_row n = [replicate n 1]"

text \<open>\<^verbatim>\<open>A.reshape(-1)\<close>\<close>

definition reshape_flat :: "matrix \<Rightarrow> vec" where
  "reshape_flat A = concat A"

text \<open>\<^verbatim>\<open>np.sum(A**2)\<close>\<close>

definition sum_sq :: "matrix \<Rightarrow> real" where
  "sum_sq A = sum_list (map (\<lambda>x. x ^ 2) (concat A))"

text \<open>
  Broadcasting the operand of an in-place operation to the shape of its target:
  every axis of the operand has the target's length or length 1.
\<close>

definition bc_to :: "nat \<Rightarrow> nat \<Rightarrow> matrix \<Rightarrow> error + matrix" where
  "bc_to n m B =
     (if (nrows B = n \<or> nrows B = 1) \<and> (ncols B = m \<or> ncols B = 1)
      then Inr (map (\<lambda>i. map (\<lambda>j. B ! (if nrows B = 1 then 0 else i)
                                   ! (if ncols B = 1 then 0 else j)) [0..<m]) [0..<n])
      else Inl ValueError)"

definition bc_to_vec :: "nat \<Rightarrow> vec \<Rightarrow> error + vec" where
  "bc_to_vec n v =
     (if length v = n then Inr v
      else if length v = 1 then Inr (replicate n (hd v))
      else Inl ValueError)"

text \<open>\<^verbatim>\<open>A += B\<close>, \<^verbatim>\<open>A -= B\<close> (2-D) and \<^verbatim>\<open>a -= b\<close> (1-D): the target keeps its shape.\<close>

definition iadd :: "matrix \<Rightarrow> matrix \<Rightarrow> error + matrix" where
  "iadd A B = bind_e (bc_to (nrows A) (ncols A) B) (\<lambda>B'. Inr (map2 (map2 (+)) A B'))"

definition isub :: "matrix \<Rightarrow> matrix \<Rightarrow> error + matrix" where
  "isub A B = bind_e (bc_to (nrows A) (ncols A) B) (\<lambda>B'. Inr (map2 (map2 (-)) A B'))"

definition isub_vec :: "vec \<Rightarrow> vec \<Rightarrow> error + vec" where
  "isub_vec a b = bind_e (bc_to_vec (length a) b) (\<lambda>b'. Inr (map2 (-) a b'))"

subsection \<open>Integer-array indexing\<close>

text \<open>An index into an axis of length \<open>n\<close>: a negative index counts from the end.\<close>

definition norm_index :: "nat \<Rightarrow> int \<Rightarrow> error + nat" where
  "norm_index n i =
     (if 0 \<le> i \<and> i < int n then Inr (nat i)
      else if - int n \<le> i \<and> i < 0 then Inr (nat (int n + i))
      else Inl IndexError)"

text \<open>Two index arrays are broadcast against each other before they are used.\<close>

definition bc_index :: "int list \<Rightarrow> int list \<Rightarrow> error + (int \<times> int) list" where
  "bc_index rs cs =
     (if length rs = length cs then Inr (zip rs cs)
      else if length cs = 1 then Inr (map (\<lambda>i. (i, hd cs)) rs)
      else if length rs = 1 then Inr (map (\<lambda>j. (hd rs, j)) cs)
      else Inl IndexError)"

definition norm_pair :: "matrix \<Rightarrow> int \<times> int \<Rightarrow> error + (nat \<times> nat)" where
  "norm_pair A p =
     bind_e (norm_index (nrows A) (fst p)) (\<lambda>i.
     bind_e (norm_index (ncols A) (snd p)) (\<lambda>j. Inr (i, j)))"

text \<open>\<^verbatim>\<open>np.arange(n)\<close>\<close>

definition arange :: "nat \<Rightarrow> int list" where
  "arange n = map int [0..<n]"

text \<open>\<^verbatim>\<open>A[rs, cs]\<close>\<close>

definition fancy_get :: "matrix \<Rightarrow> int list \<Rightarrow> int list \<Rightarrow> error + vec" where
  "fancy_get A rs cs =
     bind_e (bc_index rs cs) (\<lambda>ps.
     bind_e (mapM_e (norm_pair A) ps) (\<lambda>qs.
     Inr (map (\<lambda>q. A ! fst q ! snd q) qs)))"

text \<open>
  \<^verbatim>\<open>A[rs, cs] -= c\<close>: the selected entries are read, \<open>c\<close> is subtracted, and the
  results are written back one position after the other into the same buffer.
\<close>

definition fancy_isub :: "matrix \<Rightarrow> int list \<Rightarrow> int list \<Rightarrow> real \<Rightarrow> error + matrix" where
  "fancy_isub A rs cs c =
     bind_e (bc_index rs cs) (\<lambda>ps.
     bind_e (mapM_e (norm_pair A) ps) (\<lambda>qs.
     Inr (fold (\<lambda>q B. B[fst q := (B ! fst q)[snd q := A ! fst q ! snd q - c]]) qs A)))"

text \<open>\<^verbatim>\<open>A[M <= 0] = 0\<close>: a boolean mask must have the shape of the array it indexes.\<close>

definition mask_zero :: "matrix \<Rightarrow> matrix \<Rightarrow> error + matrix" where
  "mask_zero A M =
     (if nrows A \<noteq> nrows M \<or> ncols A \<noteq> ncols M then Inl IndexError
      else Inr (map2 (map2 (\<lambda>a m. if m \<le> 0 then 0 else a)) A M))"

text \<open>\<^verbatim>\<open>v[idx]\<close> and \<^verbatim>\<open>A[idx]\<close> for an array \<open>idx\<close> of non-negative integers.\<close>

definition take_idx :: "'a list \<Rightarrow> nat list \<Rightarrow> error + 'a list" where
  "take_idx xs idx = mapM_e (\<lambda>i. if i < length xs then Inr (xs ! i) else Inl IndexError) idx"

subsection \<open>Buffers shared between array objects\<close>

text \<open>
  A heap of array buffers; an address is a position in the list. A variable bound to an
  array holds the address of its buffer. A basic slice \<^verbatim>\<open>A[:, :]\<close> is a view: a new
  array object on the buffer of \<open>A\<close>, so it holds the same address.
\<close>

type_synonym addr = nat
type_synonym heap = "matrix list"

definition alloc :: "heap \<Rightarrow> matrix \<Rightarrow> addr \<times> heap" where
  "alloc h A = (length h, h @ [A])"

definition view_all :: "addr \<Rightarrow> addr" where
  "view_all a = a"

subsection \<open>Parameters\<close>

record params =
  W1 :: matrix
  b1 :: vec
  W2 :: matrix
  b2 :: vec

record grads =
  gW1 :: matrix
  gb1 :: vec
  gW2 :: matrix
  gb2 :: vec

text \<open>The shapes \<^verbatim>\<open>__init__\<close> gives the four arrays for the sizes \<open>(D, H, C)\<close>.\<close>

definition shaped :: "nat \<Rightarrow> nat \<Rightarrow> nat \<Rightarrow> params \<Rightarrow> bool" where
  "shaped D H C P = (mat D H (W1 P) \<and> length (b1 P) = H \<and> mat H C (W2 P) \<and> length (b2 P) = C)"

text \<open>
  \<^verbatim>\<open>__init__\<close>: the two standard-normal draws are inputs; the biases are zero.
  \<^verbatim>\<open>np.random.randn(n, m)\<close> returns an array of shape \<open>(n, m)\<close>.
\<close>

definition init :: "nat \<Rightarrow> nat \<Rightarrow> nat \<Rightarrow> real \<Rightarrow> matrix \<Rightarrow> matrix \<Rightarrow> params" where
  "init input_size hidden_size output_size std randn1 randn2 =
     \<lparr>W1 = scale std randn1, b1 = replicate hidden_size 0,
      W2 = scale std randn2, b2 = replicate output_size 0\<rparr>"

subsection \<open>Prediction\<close>

fun argmax_from :: "nat \<Rightarrow> real \<Rightarrow> nat \<Rightarrow> vec \<Rightarrow> nat" where
  "argmax_from bi bv i [] = bi"
| "argmax_from bi bv i (x # xs) =
     (if bv < x then argmax_from i x (Suc i) xs else argmax_from bi bv (Suc i) xs)"

text \<open>\<^verbatim>\<open>np.argmax\<close> of one row: the first position of the maximum; an empty row raises.\<close>

definition argmax :: "vec \<Rightarrow> error + nat" where
  "argmax xs = (case xs of [] \<Rightarrow> Inl ValueError | x # r \<Rightarrow> Inr (argmax_from 0 x 1 r))"

text \<open>\<^verbatim>\<open>np.argmax(A, axis=1)\<close>\<close>

definition argmax_rows :: "matrix \<Rightarrow> error + nat list" where
  "argmax_rows A = mapM_e argmax A"

definition predict :: "params \<Rightarrow> matrix \<Rightarrow> error + nat list" where
  "predict P X =
     bind_e (matmul X (W1 P)) (\<lambda>z.
     bind_e (add_rowvec z (b1 P)) (\<lambda>z'.
     let a1 = relu z' in
     bind_e (matmul a1 (W2 P)) (\<lambda>s.
     bind_e (add_rowvec s (b2 P)) (\<lambda>scores.
     argmax_rows scores))))"

subsection \<open>Loss and gradients\<close>

datatype loss_result = Scores matrix | LossGrads real grads

text \<open>
  The local variables of \<^verbatim>\<open>loss\<close> at its last \<^verbatim>\<open>return\<close>. The variables
  \<^verbatim>\<open>softmax\<close> and \<^verbatim>\<open>dscores\<close> hold addresses of buffers in \<open>v_heap\<close>.
\<close>

record frame =
  v_a1 :: matrix
  v_scores :: matrix
  v_softmax :: addr
  v_dscores :: addr
  v_heap :: heap
  v_loss :: real
  v_da1 :: matrix
  v_grads :: grads

text \<open>Lines 80 to 81: the forward pass.\<close>

definition forward :: "params \<Rightarrow> matrix \<Rightarrow> error + (matrix \<times> matrix)" where
  "forward P X =
     bind_e (matmul X (W1 P)) (\<lambda>z.
     bind_e (add_rowvec z (b1 P)) (\<lambda>z'.
     let a1 = relu z' in
     bind_e (matmul a1 (W2 P)) (\<lambda>s.
     bind_e (add_rowvec s (b2 P)) (\<lambda>scores.
     Inr (a1, scores)))))"

text \<open>Lines 98 to 164: the loss and the backward pass, when labels are given.\<close>

definition loss_body ::
  "params \<Rightarrow> matrix \<Rightarrow> matrix \<Rightarrow> matrix \<Rightarrow> int list \<Rightarrow> real \<Rightarrow> error + frame" where
  "loss_body P X a1 scores y reg =
     (let N = nrows X;
          (softmax, h) = alloc [] (map (map exp) scores);
          (softmax, h) = alloc h (map (\<lambda>row. map (\<lambda>x. x / sum_list row) row) (h ! softmax))
      in
      bind_e (fancy_get (h ! softmax) (arange N) y) (\<lambda>picked.
      let losses = map (\<lambda>p. - ln p) picked;
          loss = sum_list losses / real N + reg * (sum_sq (W1 P) + sum_sq (W2 P)) / 2;
          dscores = view_all softmax
      in
      bind_e (fancy_isub (h ! dscores) (arange N) y 1) (\<lambda>buf.
      let h = h[dscores := buf] in
      bind_e (matmul (transpose_m a1) (h ! dscores)) (\<lambda>m2.
      let dW2 = div_scalar m2 N in
      bind_e (matmul (ones_row N) (h ! dscores)) (\<lambda>r2.
      let db2 = reshape_flat (div_scalar r2 N) in
      bind_e (matmul (h ! dscores) (transpose_m (W2 P))) (\<lambda>da1.
      bind_e (mask_zero da1 a1) (\<lambda>da1.
      bind_e (matmul (transpose_m X) da1) (\<lambda>m1.
      let dW1 = div_scalar m1 N;
          tmp = ones_row N
      in
      bind_e (matmul tmp da1) (\<lambda>r1.
      let db1 = reshape_flat (div_scalar r1 N) in
      bind_e (iadd dW1 (scale reg (W1 P))) (\<lambda>dW1.
      bind_e (iadd dW2 (scale reg (W2 P))) (\<lambda>dW2.
      Inr \<lparr>v_a1 = a1, v_scores = scores, v_softmax = softmax, v_dscores = dscores,
           v_heap = h, v_loss = loss, v_da1 = da1,
           v_grads = \<lparr>gW1 = dW1, gb1 = db1, gW2 = dW2, gb2 = db2\<rparr>\<rparr>)))))))))))"

definition loss :: "params \<Rightarrow> matrix \<Rightarrow> int list option \<Rightarrow> real \<Rightarrow> error + loss_result" where
  "loss P X y reg =
     bind_e (forward P X) (\<lambda>(a1, scores).
     case y of
       None \<Rightarrow> Inr (Scores scores)
     | Some ys \<Rightarrow>
         bind_e (loss_body P X a1 scores ys reg) (\<lambda>f.
         Inr (LossGrads (v_loss f) (v_grads f))))"

subsection \<open>Training\<close>

text \<open>
  Line 188. \<^verbatim>\<open>num_train / batch_size\<close> divides two Python integers: the quotient is
  a float, and a zero divisor raises. The model keeps the exact quotient, which is the
  float64 value when the quotient is representable (as \<open>5/2\<close> is); a rounded quotient
  such as that of \<open>4/3\<close> gives the code's test of line 232 other results than the
  model's.
\<close>

definition iterations_per_epoch :: "nat \<Rightarrow> nat \<Rightarrow> error + real" where
  "iterations_per_epoch num_train batch_size =
     (if batch_size = 0 then Inl ZeroDivisionError
      else Inr (max (real num_train / real batch_size) 1))"

text \<open>Python's \<^verbatim>\<open>x % y\<close> on floats, for a positive \<open>y\<close>; a zero divisor raises.\<close>

definition py_mod :: "real \<Rightarrow> real \<Rightarrow> error + real" where
  "py_mod x y = (if y = 0 then Inl ZeroDivisionError else Inr (x - y * of_int \<lfloor>x / y\<rfloor>))"

text \<open>Line 232: \<^verbatim>\<open>it % iterations_per_epoch == 0\<close>\<close>

definition epoch_boundary :: "nat \<Rightarrow> real \<Rightarrow> error + bool" where
  "epoch_boundary it ipe = bind_e (py_mod (real it) ipe) (\<lambda>r. Inr (r = 0))"

text \<open>
  \<^verbatim>\<open>(pred == ys).mean()\<close>: the comparison broadcasts; on shapes that do not
  broadcast the expression raises (which exception depends on the numpy version).
\<close>

text \<open>The mean of an empty array is \<^verbatim>\<open>nan\<close> in numpy (no exception); no
  theorem below depends on the value the model gives it.\<close>

definition mean_bool :: "bool list \<Rightarrow> real" where
  "mean_bool bs = real (length (filter id bs)) / real (length bs)"

definition accuracy :: "nat list \<Rightarrow> int list \<Rightarrow> error + real" where
  "accuracy pred ys =
     (if length pred = length ys then Inr (mean_bool (map2 (\<lambda>p l. int p = l) pred ys))
      else if length ys = 1 then Inr (mean_bool (map (\<lambda>p. int p = hd ys) pred))
      else if length pred = 1 then Inr (mean_bool (map (\<lambda>l. int (hd pred) = l) ys))
      else Inl ValueError)"

text \<open>The arguments of one call of \<^verbatim>\<open>train\<close>; \<open>draws it\<close> is what
  \<^verbatim>\<open>np.random.choice(num_train, batch_size)\<close> returns in iteration \<open>it\<close>.\<close>

record targs =
  a_X :: matrix
  a_y :: "int list"
  a_X_val :: matrix
  a_y_val :: "int list"
  a_learning_rate :: real
  a_learning_rate_decay :: real
  a_reg :: real
  a_num_iters :: nat
  a_batch_size :: nat
  a_draws :: "nat \<Rightarrow> nat list"

text \<open>The state of the loop: \<^verbatim>\<open>self.params\<close>, the local \<^verbatim>\<open>learning_rate\<close>
  and the three histories.\<close>

record tstate =
  t_params :: params
  t_learning_rate :: real
  loss_history :: "real list"
  train_acc_history :: "real list"
  val_acc_history :: "real list"

text \<open>
  The body of the loop (lines 196 to 243) for iteration \<open>it\<close>. The progress line
  printed under \<^verbatim>\<open>verbose\<close> changes no variable and is left out.
  \<^verbatim>\<open>np.random.choice\<close> raises on an empty training set.
\<close>

definition train_step :: "targs \<Rightarrow> real \<Rightarrow> nat \<Rightarrow> tstate \<Rightarrow> error + tstate" where
  "train_step a ipe it s =
     (if nrows (a_X a) = 0 then Inl ValueError else
      let idx = a_draws a it in
      bind_e (take_idx (a_X a) idx) (\<lambda>X_batch.
      bind_e (take_idx (a_y a) idx) (\<lambda>y_batch.
      bind_e (loss (t_params s) X_batch (Some y_batch) (a_reg a)) (\<lambda>res.
      case res of
        Scores _ \<Rightarrow> Inl ValueError
      | LossGrads l g \<Rightarrow>
          let P = t_params s; lr = t_learning_rate s in
          bind_e (isub (W1 P) (scale lr (gW1 g))) (\<lambda>W1'.
          bind_e (isub (W2 P) (scale lr (gW2 g))) (\<lambda>W2'.
          bind_e (isub_vec (b1 P) (scale_vec lr (gb1 g))) (\<lambda>b1'.
          bind_e (isub_vec (b2 P) (scale_vec lr (gb2 g))) (\<lambda>b2'.
          let P' = \<lparr>W1 = W1', b1 = b1', W2 = W2', b2 = b2'\<rparr>;
              s1 = s\<lparr>t_params := P', loss_history := loss_history s @ [l]\<rparr>
          in
          bind_e (epoch_boundary it ipe) (\<lambda>hit.
          if hit then
            bind_e (predict P' X_batch) (\<lambda>pb.
            bind_e (accuracy pb y_batch) (\<lambda>train_acc.
            bind_e (predict P' (a_X_val a)) (\<lambda>pv.
            bind_e (accuracy pv (a_y_val a)) (\<lambda>val_acc.
            Inr (s1\<lparr>train_acc_history := train_acc_history s1 @ [train_acc],
                    val_acc_history := val_acc_history s1 @ [val_acc],
                    t_learning_rate := lr * a_learning_rate_decay a\<rparr>)))))
          else Inr s1)))))))))"

text \<open>The state after the first \<open>k\<close> iterations of the loop.\<close>

fun train_iters :: "targs \<Rightarrow> real \<Rightarrow> tstate \<Rightarrow> nat \<Rightarrow> error + tstate" where
  "train_iters a ipe s0 0 = Inr s0"
| "train_iters a ipe s0 (Suc k) = bind_e (train_iters a ipe s0 k) (train_step a ipe k)"

definition train_start :: "params \<Rightarrow> targs \<Rightarrow> tstate" where
  "train_start P a =
     \<lparr>t_params = P, t_learning_rate = a_learning_rate a,
      loss_history = [], train_acc_history = [], val_acc_history = []\<rparr>"

text \<open>\<^verbatim>\<open>train\<close>: the final state holds the returned histories and the updated parameters.\<close>

definition train :: "params \<Rightarrow> targs \<Rightarrow> error + tstate" where
  "train P a =
     bind_e (iterations_per_epoch (nrows (a_X a)) (a_batch_size a)) (\<lambda>ipe.
     train_iters a ipe (train_start P a) (a_num_iters a))"

text \<open>What \<^verbatim>\<open>np.random.choice(num_train, batch_size)\<close> can return.\<close>

definition valid_draws :: "nat \<Rightarrow> nat \<Rightarrow> (nat \<Rightarrow> nat list) \<Rightarrow> nat \<Rightarrow> bool" where
  "valid_draws num_train batch_size draws it =
     (length (draws it) = batch_size \<and> list_all (\<lambda>i. i < num_train) (draws it))"

section \<open>The specification's formulas\<close>

text \<open>
  The definitions of this section are not taken from the code: they write the formulas
  of the specification entry by entry, over the entries of the inputs. The code's arrays
  are compared with them below.
\<close>

type_synonym entries = "nat \<Rightarrow> nat \<Rightarrow> real"

text \<open>The array of shape \<open>(n, m)\<close> whose entry \<open>(i, j)\<close> is \<open>f i j\<close>, and the entries of an array.\<close>

definition tab :: "nat \<Rightarrow> nat \<Rightarrow> entries \<Rightarrow> matrix" where
  "tab n m f = map (\<lambda>i. map (f i) [0..<m]) [0..<n]"

definition ent :: "matrix \<Rightarrow> entries" where
  "ent A i j = A ! i ! j"

text \<open>A batch of \<open>N\<close> labels, each in \<open>[0, C)\<close>.\<close>

definition labels_in :: "nat \<Rightarrow> nat \<Rightarrow> int list \<Rightarrow> bool" where
  "labels_in N C y = (length y = N \<and> list_all (\<lambda>l. 0 \<le> l \<and> l < int C) y)"

text \<open>
  A batch of \<open>N\<close> integers that index an axis of length \<open>C\<close> without an IndexError,
  and the position such an integer selects.
\<close>

definition labels_ok :: "nat \<Rightarrow> nat \<Rightarrow> int list \<Rightarrow> bool" where
  "labels_ok N C y = (length y = N \<and> list_all (\<lambda>l. - int C \<le> l \<and> l < int C) y)"

definition wrap :: "nat \<Rightarrow> int \<Rightarrow> nat" where
  "wrap n i = (if 0 \<le> i then nat i else nat (int n + i))"

text \<open>Forward pass: \<open>a1 = max(0, X W1 + b1)\<close>, \<open>scores = a1 W2 + b2\<close>.\<close>

definition spec_a1 :: "nat \<Rightarrow> entries \<Rightarrow> entries \<Rightarrow> vec \<Rightarrow> entries" where
  "spec_a1 D x w1 bb1 = (\<lambda>i h. max 0 ((\<Sum>d<D. x i d * w1 d h) + bb1 ! h))"

definition spec_scores :: "nat \<Rightarrow> entries \<Rightarrow> entries \<Rightarrow> vec \<Rightarrow> entries" where
  "spec_scores H a w2 bb2 = (\<lambda>i c. (\<Sum>h<H. a i h * w2 h c) + bb2 ! c)"

text \<open>Row-wise softmax: exponentiate the raw scores and normalise each row.\<close>

definition spec_softmax :: "nat \<Rightarrow> entries \<Rightarrow> entries" where
  "spec_softmax C s = (\<lambda>i c. exp (s i c) / (\<Sum>k<C. exp (s i k)))"


text \<open>Total loss: the mean cross-entropy plus \<open>\<lambda>/2\<close> times the sum of the squared weights.\<close>

definition spec_loss ::
  "nat \<Rightarrow> nat \<Rightarrow> nat \<Rightarrow> nat \<Rightarrow> real \<Rightarrow> entries \<Rightarrow> int list \<Rightarrow> entries \<Rightarrow> entries \<Rightarrow> real" where
  "spec_loss N D H C reg p y w1 w2 =
     (\<Sum>i<N. - ln (p i (nat (y ! i)))) / real N
     + (reg / 2) * ((\<Sum>d<D. \<Sum>h<H. (w1 d h) ^ 2) + (\<Sum>h<H. \<Sum>c<C. (w2 h c) ^ 2))"

text \<open>Backward pass, in the order of the specification.\<close>

definition spec_dscores :: "entries \<Rightarrow> int list \<Rightarrow> entries" where
  "spec_dscores p y = (\<lambda>i c. p i c - (if c = nat (y ! i) then 1 else 0))"

definition spec_dW2 :: "nat \<Rightarrow> real \<Rightarrow> entries \<Rightarrow> entries \<Rightarrow> entries \<Rightarrow> entries" where
  "spec_dW2 N reg a dS w2 = (\<lambda>h c. (\<Sum>i<N. a i h * dS i c) / real N + reg * w2 h c)"

definition spec_db2 :: "nat \<Rightarrow> entries \<Rightarrow> nat \<Rightarrow> real" where
  "spec_db2 N dS = (\<lambda>c. (\<Sum>i<N. dS i c) / real N)"

definition spec_dA1 :: "nat \<Rightarrow> entries \<Rightarrow> entries \<Rightarrow> entries \<Rightarrow> entries" where
  "spec_dA1 C dS w2 a = (\<lambda>i h. if a i h \<le> 0 then 0 else (\<Sum>c<C. dS i c * w2 h c))"

definition spec_dW1 :: "nat \<Rightarrow> real \<Rightarrow> entries \<Rightarrow> entries \<Rightarrow> entries \<Rightarrow> entries" where
  "spec_dW1 N reg x dA w1 = (\<lambda>d h. (\<Sum>i<N. x i d * dA i h) / real N + reg * w1 d h)"

definition spec_db1 :: "nat \<Rightarrow> entries \<Rightarrow> nat \<Rightarrow> real" where
  "spec_db1 N dA = (\<lambda>h. (\<Sum>i<N. dA i h) / real N)"

text \<open>The formulas at the parameters \<open>P\<close> and the batch \<open>(X, y)\<close>.\<close>

definition net_a1 :: "nat \<Rightarrow> params \<Rightarrow> matrix \<Rightarrow> entries" where
  "net_a1 D P X = spec_a1 D (ent X) (ent (W1 P)) (b1 P)"

definition net_scores :: "nat \<Rightarrow> nat \<Rightarrow> params \<Rightarrow> matrix \<Rightarrow> entries" where
  "net_scores D H P X = spec_scores H (net_a1 D P X) (ent (W2 P)) (b2 P)"

definition net_probs :: "nat \<Rightarrow> nat \<Rightarrow> nat \<Rightarrow> params \<Rightarrow> matrix \<Rightarrow> entries" where
  "net_probs D H C P X = spec_softmax C (net_scores D H P X)"

definition net_dscores :: "nat \<Rightarrow> nat \<Rightarrow> nat \<Rightarrow> params \<Rightarrow> matrix \<Rightarrow> int list \<Rightarrow> entries" where
  "net_dscores D H C P X y = spec_dscores (net_probs D H C P X) y"

definition net_dA1 :: "nat \<Rightarrow> nat \<Rightarrow> nat \<Rightarrow> params \<Rightarrow> matrix \<Rightarrow> int list \<Rightarrow> entries" where
  "net_dA1 D H C P X y = spec_dA1 C (net_dscores D H C P X y) (ent (W2 P)) (net_a1 D P X)"

definition net_loss :: "nat \<Rightarrow> nat \<Rightarrow> nat \<Rightarrow> nat \<Rightarrow> params \<Rightarrow> matrix \<Rightarrow> int list \<Rightarrow> real \<Rightarrow> real" where
  "net_loss N D H C P X y reg =
     spec_loss N D H C reg (net_probs D H C P X) y (ent (W1 P)) (ent (W2 P))"

definition net_grads :: "nat \<Rightarrow> nat \<Rightarrow> nat \<Rightarrow> nat \<Rightarrow> params \<Rightarrow> matrix \<Rightarrow> int list \<Rightarrow> real \<Rightarrow> grads" where
  "net_grads N D H C P X y reg =
     \<lparr>gW1 = tab D H (spec_dW1 N reg (ent X) (net_dA1 D H C P X y) (ent (W1 P))),
      gb1 = map (spec_db1 N (net_dA1 D H C P X y)) [0..<H],
      gW2 = tab H C (spec_dW2 N reg (net_a1 D P X) (net_dscores D H C P X y) (ent (W2 P))),
      gb2 = map (spec_db2 N (net_dscores D H C P X y)) [0..<C]\<rparr>"

text \<open>The local variables of a call of \<^verbatim>\<open>loss\<close> with labels, at its return.\<close>

definition net_frame :: "nat \<Rightarrow> nat \<Rightarrow> nat \<Rightarrow> nat \<Rightarrow> params \<Rightarrow> matrix \<Rightarrow> int list \<Rightarrow> real \<Rightarrow> frame" where
  "net_frame N D H C P X y reg =
     \<lparr>v_a1 = tab N H (net_a1 D P X), v_scores = tab N C (net_scores D H P X),
      v_softmax = 1, v_dscores = 1,
      v_heap = [tab N C (\<lambda>i j. exp (net_scores D H P X i j)),
                tab N C (net_dscores D H C P X y)],
      v_loss = net_loss N D H C P X y reg,
      v_da1 = tab N H (net_dA1 D H C P X y),
      v_grads = net_grads N D H C P X y reg\<rparr>"

text \<open>
  The test of line 232 as a predicate, and the number of iterations among the first \<open>k\<close>
  that pass it.
\<close>

definition is_boundary :: "nat \<Rightarrow> real \<Rightarrow> bool" where
  "is_boundary it ipe = (real it - ipe * of_int \<lfloor>real it / ipe\<rfloor> = 0)"

definition boundaries :: "real \<Rightarrow> nat \<Rightarrow> nat" where
  "boundaries ipe k = length (filter (\<lambda>it. is_boundary it ipe) [0..<k])"

text \<open>
  The arguments \<^verbatim>\<open>train\<close> is documented for: \<open>N\<close> training rows and \<open>Nv\<close>
  validation rows of \<open>D\<close> features with labels in \<open>[0, C)\<close>, batches of \<open>B\<close> rows.
\<close>

definition train_ok :: "nat \<Rightarrow> nat \<Rightarrow> nat \<Rightarrow> nat \<Rightarrow> nat \<Rightarrow> nat \<Rightarrow> targs \<Rightarrow> bool" where
  "train_ok D H C N Nv B a =
     (mat N D (a_X a) \<and> labels_in N C (a_y a) \<and> mat Nv D (a_X_val a)
      \<and> length (a_y_val a) = Nv \<and> a_batch_size a = B
      \<and> 0 < N \<and> 0 < Nv \<and> 0 < B \<and> 0 < D \<and> 0 < H \<and> 0 < C)"

text \<open>A network and a batch used to instantiate the theorems: \<open>D = 1\<close>, \<open>H = 1\<close>, \<open>C = 2\<close>.\<close>

definition example_net :: params where
  "example_net = \<lparr>W1 = [[1]], b1 = [0], W2 = [[1, 2]], b2 = [0, 0]\<rparr>"

definition example_X :: matrix where
  "example_X = [[1]]"

text \<open>A training run on 5 rows with batches of 2, for 4 iterations.\<close>

definition example_train :: targs where
  "example_train =
     \<lparr>a_X = [[1], [2], [3], [4], [5]], a_y = [0, 1, 0, 1, 0],
      a_X_val = [[1]], a_y_val = [0],
      a_learning_rate = 1, a_learning_rate_decay = 1 / 2, a_reg = 0,
      a_num_iters = 4, a_batch_size = 2, a_draws = (\<lambda>it. [0, 1])\<rparr>"

section \<open>Properties\<close>

subsection \<open>Arrays given by their entries\<close>

lemma bind_e_Inr [simp]: "bind_e (Inr x) f = f x"
  by (simp add: bind_e_def)

lemma bind_e_Inl [simp]: "bind_e (Inl e) f = Inl e"
  by (simp add: bind_e_def)

lemma mapM_e_map: "(\<And>x. x \<in> set xs \<Longrightarrow> f x = Inr (g x)) \<Longrightarrow> mapM_e f xs = Inr (map g xs)"
  by (induction xs) auto

lemma mat_tab [simp]: "mat n m (tab n m f)"
  by (simp add: mat_def tab_def list_all_iff)

lemma length_tab [simp]: "length (tab n m f) = n"
  by (simp add: tab_def)

lemma nrows_tab [simp]: "nrows (tab n m f) = n"
  by (simp add: nrows_def)

lemma tab_row [simp]: "i < n \<Longrightarrow> tab n m f ! i = map (f i) [0..<m]"
  by (simp add: tab_def)

lemma tab_nth: "i < n \<Longrightarrow> j < m \<Longrightarrow> tab n m f ! i ! j = f i j"
  by simp

lemma ncols_tab [simp]: "0 < n \<Longrightarrow> ncols (tab n m f) = m"
  by (cases n) (simp_all add: ncols_def tab_def upt_conv_Cons del: upt_Suc)

lemma mat_eq_tab: "mat n m A \<Longrightarrow> A = tab n m (\<lambda>i j. A ! i ! j)"
proof (rule nth_equalityI)
  assume A: "mat n m A"
  then show "length A = length (tab n m (\<lambda>i j. A ! i ! j))"
    by (simp add: mat_def)
  fix i assume i: "i < length A"
  with A have "length (A ! i) = m"
    by (simp add: mat_def list_all_length)
  then have "map ((!) (A ! i)) [0..<m] = A ! i"
    using map_nth [of "A ! i"] by simp
  with A i show "A ! i = tab n m (\<lambda>i j. A ! i ! j) ! i"
    by (simp add: mat_def)
qed

lemma tab_cong: "(\<And>i j. i < n \<Longrightarrow> j < m \<Longrightarrow> f i j = g i j) \<Longrightarrow> tab n m f = tab n m g"
  by (simp add: tab_def)

lemma col_tab [simp]: "j < m \<Longrightarrow> col (tab n m f) j = map (\<lambda>i. f i j) [0..<n]"
  by (simp add: col_def tab_def)

lemma transpose_tab [simp]: "0 < n \<Longrightarrow> transpose_m (tab n m f) = tab m n (\<lambda>j i. f i j)"
proof -
  assume n: "0 < n"
  have "map (col (tab n m f)) [0..<m] = map (\<lambda>j. map (\<lambda>i. f i j) [0..<n]) [0..<m]"
    by (rule map_cong) simp_all
  with n show ?thesis
    by (simp add: transpose_m_def tab_def[of m n])
qed

lemma dot_upt: "dot (map f [0..<k]) (map g [0..<k]) = (\<Sum>l<k. f l * g l)"
proof -
  have "map2 (*) (map f [0..<k]) (map g [0..<k]) = map (\<lambda>l. f l * g l) [0..<k]"
    by (auto intro!: nth_equalityI)
  then show ?thesis
    by (simp add: dot_def interv_sum_list_conv_sum_set_nat atLeast0LessThan)
qed

lemma matmul_tab:
  "0 < n \<Longrightarrow> 0 < k \<Longrightarrow>
   matmul (tab n k f) (tab k m g) = Inr (tab n m (\<lambda>i j. \<Sum>l<k. f i l * g l j))"
proof -
  assume n: "0 < n" and k: "0 < k"
  have "map (\<lambda>r. map (\<lambda>j. dot r (col (tab k m g) j)) [0..<m]) (tab n k f)
          = map (\<lambda>i. map (\<lambda>j. dot (map (f i) [0..<k]) (col (tab k m g) j)) [0..<m]) [0..<n]"
    by (simp add: tab_def[of n k] comp_def)
  also have "\<dots> = map (\<lambda>i. map (\<lambda>j. \<Sum>l<k. f i l * g l j) [0..<m]) [0..<n]"
    by (intro map_cong refl) (simp add: dot_upt)
  finally show ?thesis
    using n k by (simp add: matmul_def tab_def[of n m])
qed

lemma add_rowvec_tab:
  "0 < n \<Longrightarrow> length b = m \<Longrightarrow>
   add_rowvec (tab n m f) b = Inr (tab n m (\<lambda>i j. f i j + b ! j))"
proof -
  assume n: "0 < n" and b: "length b = m"
  have "map (\<lambda>r. map2 (+) r b) (tab n m f) = tab n m (\<lambda>i j. f i j + b ! j)"
    using b by (auto simp: tab_def intro!: nth_equalityI)
  with n b show ?thesis
    by (simp add: add_rowvec_def)
qed

lemma map_map_tab: "map (map g) (tab n m f) = tab n m (\<lambda>i j. g (f i j))"
  by (simp add: tab_def)

lemma relu_tab: "relu (tab n m f) = tab n m (\<lambda>i j. max 0 (f i j))"
  by (simp add: relu_def map_map_tab)

lemma div_scalar_tab: "div_scalar (tab n m f) k = tab n m (\<lambda>i j. f i j / real k)"
  by (simp add: div_scalar_def map_map_tab)

lemma scale_tab: "scale c (tab n m f) = tab n m (\<lambda>i j. c * f i j)"
  by (simp add: scale_def map_map_tab)

lemma softmax_rows_tab:
  "map (\<lambda>row. map (\<lambda>x. x / sum_list row) row) (tab n m f)
     = tab n m (\<lambda>i j. f i j / (\<Sum>k<m. f i k))"
  by (simp add: tab_def interv_sum_list_conv_sum_set_nat atLeast0LessThan)

lemma ones_row_tab: "ones_row n = tab 1 n (\<lambda>i j. 1)"
  by (simp add: ones_row_def tab_def map_replicate_const)

lemma reshape_flat_tab: "reshape_flat (tab 1 m f) = map (f 0) [0..<m]"
  by (simp add: reshape_flat_def tab_def)

lemma sum_list_concat_real: "sum_list (concat xss) = sum_list (map sum_list xss)"
  for xss :: "real list list"
  by (induction xss) simp_all

lemma sum_sq_tab: "sum_sq (tab n m f) = (\<Sum>i<n. \<Sum>j<m. (f i j) ^ 2)"
  by (simp add: sum_sq_def tab_def map_concat sum_list_concat_real comp_def
      interv_sum_list_conv_sum_set_nat atLeast0LessThan)

lemma map2_tab: "map2 (map2 h) (tab n m f) (tab n m g) = tab n m (\<lambda>i j. h (f i j) (g i j))"
  by (auto simp: tab_def intro!: nth_equalityI)

lemma bc_to_tab: "0 < n \<Longrightarrow> bc_to n m (tab n m f) = Inr (tab n m f)"
proof -
  assume n: "0 < n"
  let ?B = "tab n m f"
  have "map (\<lambda>i. map (\<lambda>j. ?B ! (if n = 1 then 0 else i) ! (if m = 1 then 0 else j)) [0..<m]) [0..<n]
          = map (\<lambda>i. map (f i) [0..<m]) [0..<n]"
    by (intro map_cong refl) auto
  with n show ?thesis
    by (simp add: bc_to_def tab_def[of n m f, symmetric])
qed

lemma iadd_tab:
  "0 < n \<Longrightarrow> iadd (tab n m f) (tab n m g) = Inr (tab n m (\<lambda>i j. f i j + g i j))"
  by (simp add: iadd_def bc_to_tab map2_tab)

lemma isub_tab:
  "0 < n \<Longrightarrow> isub (tab n m f) (tab n m g) = Inr (tab n m (\<lambda>i j. f i j - g i j))"
  by (simp add: isub_def bc_to_tab map2_tab)

lemma mask_zero_tab:
  "0 < n \<Longrightarrow> mask_zero (tab n m f) (tab n m g)
     = Inr (tab n m (\<lambda>i j. if g i j \<le> 0 then 0 else f i j))"
  by (simp add: mask_zero_def map2_tab)

lemma norm_index_wrap: "- int n \<le> i \<Longrightarrow> i < int n \<Longrightarrow> norm_index n i = Inr (wrap n i)"
  by (simp add: norm_index_def wrap_def)

lemma wrap_less: "- int n \<le> i \<Longrightarrow> i < int n \<Longrightarrow> wrap n i < n"
  by (auto simp: wrap_def)

lemma norm_index_nat: "norm_index n (int i) = (if i < n then Inr i else Inl IndexError)"
  by (simp add: norm_index_def)

lemma labels_okD:
  "labels_ok N C y \<Longrightarrow> i < N \<Longrightarrow> - int C \<le> y ! i \<and> y ! i < int C"
  by (simp add: labels_ok_def list_all_length)

lemma zip_arange: "length y = N \<Longrightarrow> zip (arange N) y = map (\<lambda>i. (int i, y ! i)) [0..<N]"
  by (auto simp: arange_def intro!: nth_equalityI)

lemma norm_pairs_tab:
  assumes "0 < N" "labels_ok N C y"
  shows "mapM_e (norm_pair (tab N C p)) (map (\<lambda>i. (int i, y ! i)) [0..<N])
           = Inr (map (\<lambda>i. (i, wrap C (y ! i))) [0..<N])"
proof -
  have "mapM_e (norm_pair (tab N C p)) (map (\<lambda>i. (int i, y ! i)) [0..<N])
          = Inr (map (\<lambda>q. (nat (fst q), wrap C (snd q))) (map (\<lambda>i. (int i, y ! i)) [0..<N]))"
  proof (rule mapM_e_map)
    fix x assume "x \<in> set (map (\<lambda>i. (int i, y ! i)) [0..<N])"
    then obtain i where i: "i < N" and x: "x = (int i, y ! i)" by auto
    from labels_okD [OF assms(2) i] assms(1) i
    show "norm_pair (tab N C p) x = Inr (nat (fst x), wrap C (snd x))"
      by (simp add: norm_pair_def x norm_index_nat norm_index_wrap)
  qed
  then show ?thesis by (simp add: comp_def)
qed

lemma fancy_get_tab:
  assumes "0 < N" "labels_ok N C y"
  shows "fancy_get (tab N C p) (arange N) y = Inr (map (\<lambda>i. p i (wrap C (y ! i))) [0..<N])"
proof -
  have len: "length y = N" using assms(2) by (simp add: labels_ok_def)
  have "map (\<lambda>q. tab N C p ! fst q ! snd q) (map (\<lambda>i. (i, wrap C (y ! i))) [0..<N])
          = map (\<lambda>i. p i (wrap C (y ! i))) [0..<N]"
    using labels_okD [OF assms(2)] by (simp add: wrap_less)
  then show ?thesis
    by (simp add: fancy_get_def bc_index_def arange_def[THEN arg_cong, of length] len
        zip_arange norm_pairs_tab [OF assms])
qed

lemma fold_isub_tab:
  assumes w: "\<And>i. i < N \<Longrightarrow> w i < C"
  shows "k \<le> N \<Longrightarrow>
    fold (\<lambda>q B. B[fst q := (B ! fst q)[snd q := tab N C p ! fst q ! snd q - c]])
         (map (\<lambda>i. (i, w i)) [0..<k]) (tab N C p)
      = tab N C (\<lambda>i j. if i < k \<and> j = w i then p i j - c else p i j)"
proof (induction k)
  case 0
  show ?case by simp
next
  case (Suc k)
  then have k: "k < N" by simp
  let ?B = "tab N C (\<lambda>i j. if i < k \<and> j = w i then p i j - c else p i j)"
  have row: "(?B ! k)[w k := tab N C p ! k ! w k - c]
               = map (\<lambda>j. if j = w k then p k j - c else p k j) [0..<C]"
    using k w [OF k] by (auto intro!: nth_equalityI simp: nth_list_update)
  have "?B[k := map (\<lambda>j. if j = w k then p k j - c else p k j) [0..<C]]
          = tab N C (\<lambda>i j. if i < Suc k \<and> j = w i then p i j - c else p i j)"
    using k by (auto intro!: nth_equalityI simp: nth_list_update less_Suc_eq)
  with Suc row show ?case by simp
qed

lemma fancy_isub_tab:
  assumes "0 < N" "labels_ok N C y"
  shows "fancy_isub (tab N C p) (arange N) y c
           = Inr (tab N C (\<lambda>i j. if j = wrap C (y ! i) then p i j - c else p i j))"
proof -
  have len: "length y = N" using assms(2) by (simp add: labels_ok_def)
  have "fold (\<lambda>q B. B[fst q := (B ! fst q)[snd q := tab N C p ! fst q ! snd q - c]])
         (map (\<lambda>i. (i, wrap C (y ! i))) [0..<N]) (tab N C p)
      = tab N C (\<lambda>i j. if i < N \<and> j = wrap C (y ! i) then p i j - c else p i j)"
    by (rule fold_isub_tab) (use labels_okD [OF assms(2)] in \<open>simp_all add: wrap_less\<close>)
  also have "\<dots> = tab N C (\<lambda>i j. if j = wrap C (y ! i) then p i j - c else p i j)"
    by (rule tab_cong) simp
  finally show ?thesis
    by (simp add: fancy_isub_def bc_index_def arange_def[THEN arg_cong, of length] len
        zip_arange norm_pairs_tab [OF assms])
qed

subsection \<open>The forward and backward pass on well-shaped inputs\<close>

lemma labels_in_ok: "labels_in N C y \<Longrightarrow> labels_ok N C y"
  by (auto simp: labels_in_def labels_ok_def list_all_iff)

lemma labels_in_wrap: "labels_in N C y \<Longrightarrow> i < N \<Longrightarrow> wrap C (y ! i) = nat (y ! i)"
  by (simp add: labels_in_def list_all_length wrap_def)

lemma reshape_flat_tab1: "reshape_flat (tab (Suc 0) m f) = map (f 0) [0..<m]"
  by (simp add: reshape_flat_def tab_def)

lemma fancy_get_labels:
  assumes "0 < N" "labels_in N C y"
  shows "fancy_get (tab N C p) (arange N) y = Inr (map (\<lambda>i. p i (nat (y ! i))) [0..<N])"
  using labels_in_wrap [OF assms(2)]
  by (simp add: fancy_get_tab [OF assms(1) labels_in_ok [OF assms(2)]])

lemma fancy_isub_labels:
  assumes "0 < N" "labels_in N C y"
  shows "fancy_isub (tab N C p) (arange N) y 1 = Inr (tab N C (spec_dscores p y))"
proof -
  have "tab N C (\<lambda>i j. if j = wrap C (y ! i) then p i j - 1 else p i j)
          = tab N C (spec_dscores p y)"
    by (rule tab_cong) (simp add: spec_dscores_def labels_in_wrap [OF assms(2)])
  then show ?thesis
    by (simp add: fancy_isub_tab [OF assms(1) labels_in_ok [OF assms(2)]])
qed

lemma forward_tab:
  assumes "0 < N" "0 < D" "0 < H" "length bb1 = H" "length bb2 = C"
  shows "forward \<lparr>W1 = tab D H w1, b1 = bb1, W2 = tab H C w2, b2 = bb2\<rparr> (tab N D x)
     = Inr (tab N H (spec_a1 D x w1 bb1),
            tab N C (spec_scores H (spec_a1 D x w1 bb1) w2 bb2))"
  using assms
  by (simp add: forward_def matmul_tab add_rowvec_tab relu_tab spec_a1_def spec_scores_def)

lemma loss_body_tab:
  assumes "0 < N" "0 < D" "0 < H" "0 < C" "labels_in N C y"
  shows "loss_body \<lparr>W1 = tab D H w1, b1 = bb1, W2 = tab H C w2, b2 = bb2\<rparr> (tab N D x)
            (tab N H a) (tab N C s) y reg =
     Inr \<lparr>v_a1 = tab N H a, v_scores = tab N C s, v_softmax = 1, v_dscores = 1,
          v_heap = [tab N C (\<lambda>i j. exp (s i j)),
                    tab N C (spec_dscores (spec_softmax C s) y)],
          v_loss = spec_loss N D H C reg (spec_softmax C s) y w1 w2,
          v_da1 = tab N H (spec_dA1 C (spec_dscores (spec_softmax C s) y) w2 a),
          v_grads =
            \<lparr>gW1 = tab D H (spec_dW1 N reg x
                     (spec_dA1 C (spec_dscores (spec_softmax C s) y) w2 a) w1),
             gb1 = map (spec_db1 N (spec_dA1 C (spec_dscores (spec_softmax C s) y) w2 a)) [0..<H],
             gW2 = tab H C (spec_dW2 N reg a (spec_dscores (spec_softmax C s) y) w2),
             gb2 = map (spec_db2 N (spec_dscores (spec_softmax C s) y)) [0..<C]\<rparr>\<rparr>"
  using assms
  by (simp add: loss_body_def alloc_def view_all_def map_map_tab softmax_rows_tab
      fancy_get_labels fancy_isub_labels matmul_tab ones_row_tab div_scalar_tab
      reshape_flat_tab1 mask_zero_tab scale_tab iadd_tab sum_sq_tab comp_def
      spec_softmax_def spec_loss_def spec_dA1_def spec_dW1_def spec_db1_def spec_dW2_def
      spec_db2_def interv_sum_list_conv_sum_set_nat atLeast0LessThan)

lemma mat_ent: "mat n m A \<Longrightarrow> A = tab n m (ent A)"
proof -
  have "ent A = (\<lambda>i j. A ! i ! j)" by (intro ext) (simp add: ent_def)
  then show "mat n m A \<Longrightarrow> A = tab n m (ent A)"
    using mat_eq_tab [of n m A] by simp
qed

lemma shaped_ent:
  "shaped D H C P \<Longrightarrow>
   P = \<lparr>W1 = tab D H (ent (W1 P)), b1 = b1 P, W2 = tab H C (ent (W2 P)), b2 = b2 P\<rparr>"
  using mat_ent [of D H "W1 P"] mat_ent [of H C "W2 P"]
  by (cases P) (simp add: shaped_def)

lemma forward_shaped:
  assumes "shaped D H C P" "mat N D X" "0 < N" "0 < D" "0 < H"
  shows "forward P X = Inr (tab N H (net_a1 D P X), tab N C (net_scores D H P X))"
proof -
  have "forward P X = forward \<lparr>W1 = tab D H (ent (W1 P)), b1 = b1 P,
          W2 = tab H C (ent (W2 P)), b2 = b2 P\<rparr> (tab N D (ent X))"
    by (rule arg_cong2 [OF shaped_ent [OF assms(1)] mat_ent [OF assms(2)]])
  also have "\<dots> = Inr (tab N H (net_a1 D P X), tab N C (net_scores D H P X))"
    using assms by (simp add: forward_tab shaped_def net_a1_def net_scores_def)
  finally show ?thesis .
qed

lemma loss_body_shaped:
  assumes "shaped D H C P" "mat N D X" "labels_in N C y" "0 < N" "0 < D" "0 < H" "0 < C"
  shows "loss_body P X (tab N H (net_a1 D P X)) (tab N C (net_scores D H P X)) y reg =
     Inr \<lparr>v_a1 = tab N H (net_a1 D P X), v_scores = tab N C (net_scores D H P X),
          v_softmax = 1, v_dscores = 1,
          v_heap = [tab N C (\<lambda>i j. exp (net_scores D H P X i j)),
                    tab N C (net_dscores D H C P X y)],
          v_loss = spec_loss N D H C reg (net_probs D H C P X) y (ent (W1 P)) (ent (W2 P)),
          v_da1 = tab N H (net_dA1 D H C P X y),
          v_grads =
            \<lparr>gW1 = tab D H (spec_dW1 N reg (ent X) (net_dA1 D H C P X y) (ent (W1 P))),
             gb1 = map (spec_db1 N (net_dA1 D H C P X y)) [0..<H],
             gW2 = tab H C (spec_dW2 N reg (net_a1 D P X) (net_dscores D H C P X y) (ent (W2 P))),
             gb2 = map (spec_db2 N (net_dscores D H C P X y)) [0..<C]\<rparr>\<rparr>"
proof -
  have "loss_body P X = loss_body \<lparr>W1 = tab D H (ent (W1 P)), b1 = b1 P,
          W2 = tab H C (ent (W2 P)), b2 = b2 P\<rparr> (tab N D (ent X))"
    by (rule arg_cong2 [OF shaped_ent [OF assms(1)] mat_ent [OF assms(2)]])
  then show ?thesis
    using assms(3-)
    by (simp only: loss_body_tab net_probs_def net_dscores_def net_dA1_def)
qed

lemma loss_shaped:
  assumes "shaped D H C P" "mat N D X" "labels_in N C y" "0 < N" "0 < D" "0 < H" "0 < C"
  shows "loss P X (Some y) reg =
     Inr (LossGrads
       (spec_loss N D H C reg (net_probs D H C P X) y (ent (W1 P)) (ent (W2 P)))
       \<lparr>gW1 = tab D H (spec_dW1 N reg (ent X) (net_dA1 D H C P X y) (ent (W1 P))),
        gb1 = map (spec_db1 N (net_dA1 D H C P X y)) [0..<H],
        gW2 = tab H C (spec_dW2 N reg (net_a1 D P X) (net_dscores D H C P X y) (ent (W2 P))),
        gb2 = map (spec_db2 N (net_dscores D H C P X y)) [0..<C]\<rparr>)"
  using assms
  by (simp add: loss_def forward_shaped loss_body_shaped)

lemma loss_body_frame:
  assumes "shaped D H C P" "mat N D X" "labels_in N C y" "0 < N" "0 < D" "0 < H" "0 < C"
  shows "loss_body P X (tab N H (net_a1 D P X)) (tab N C (net_scores D H P X)) y reg
           = Inr (net_frame N D H C P X y reg)"
  using loss_body_shaped [OF assms] by (simp add: net_frame_def net_loss_def net_grads_def)

lemma loss_shaped_net:
  assumes "shaped D H C P" "mat N D X" "labels_in N C y" "0 < N" "0 < D" "0 < H" "0 < C"
  shows "loss P X (Some y) reg =
     Inr (LossGrads (net_loss N D H C P X y reg) (net_grads N D H C P X y reg))"
  using loss_shaped [OF assms] by (simp add: net_loss_def net_grads_def)


lemma sum_list_member_le:
  fixes f :: "'a \<Rightarrow> real"
  assumes "\<And>x. 0 \<le> f x"
  shows "w \<in> set xs \<Longrightarrow> f w \<le> sum_list (map f xs)"
proof (induction xs)
  case Nil
  then show ?case by simp
next
  case (Cons x xs)
  have nn: "0 \<le> sum_list (map f xs)"
    by (rule sum_list_nonneg) (use assms in auto)
  show ?case
  proof (cases "w = x")
    case True
    with nn show ?thesis by simp
  next
    case False
    with Cons have "f w \<le> sum_list (map f xs)" by simp
    with assms [of x] show ?thesis by simp
  qed
qed

lemma sum_sq_nonneg: "0 \<le> sum_sq A"
  unfolding sum_sq_def by (rule sum_list_nonneg) auto

lemma sum_sq_pos: "w \<in> set (concat A) \<Longrightarrow> w \<noteq> 0 \<Longrightarrow> 0 < sum_sq A"
proof -
  assume w: "w \<in> set (concat A)" and nz: "w \<noteq> 0"
  have le: "w ^ 2 \<le> sum_list (map (\<lambda>x. x ^ 2) (concat A))"
    by (rule sum_list_member_le [where f = "\<lambda>x. x ^ 2"]) (use w in simp_all)
  from nz have p: "0 < w ^ 2" by simp
  show ?thesis
    unfolding sum_sq_def by (rule less_le_trans [OF p le])
qed

lemma sum_sq_ent: "mat n m A \<Longrightarrow> (\<Sum>i<n. \<Sum>j<m. (ent A i j) ^ 2) = sum_sq A"
  using sum_sq_tab [of n m "ent A"] mat_ent [of n m A] by simp

lemma net_loss_reg:
  assumes "shaped D H C P"
  shows "net_loss N D H C P X y reg
           = net_loss N D H C P X y 0 + reg * (sum_sq (W1 P) + sum_sq (W2 P)) / 2"
  using assms
  by (simp add: net_loss_def spec_loss_def shaped_def sum_sq_ent)





subsection \<open>The gradients\<close>

text \<open>
  C1. For every batch (\<open>X\<close> of shape \<open>N \<times> D\<close>, labels in \<open>[0, C)\<close>), weights and
  regularization strength, the call \<open>loss(X, y, reg)\<close> returns gradients that satisfy the
  backpropagation equations: \<open>dscores\<close> is the softmax probabilities with 1 subtracted at
  each row's true-class column; \<open>dW2 = (a1\<^sup>T dscores)/N + reg W2\<close>; \<open>db2\<close> is the column sum
  of \<open>dscores\<close> over \<open>N\<close>; \<open>da1 = dscores W2\<^sup>T\<close>, zero wherever \<open>a1 \<le> 0\<close>;
  \<open>dW1 = (X\<^sup>T da1)/N + reg W1\<close>; \<open>db1\<close> is the column sum of \<open>da1\<close> over \<open>N\<close>; the bias
  gradients carry no regularization term (\<open>spec_db1\<close> and \<open>spec_db2\<close> do not take \<open>reg\<close>).
  Here \<open>f\<close> is the frame of local variables of the call at its return.
\<close>

theorem backprop_equations:
  assumes "shaped D H C P" "mat N D X" "labels_in N C y" "0 < N" "0 < D" "0 < H" "0 < C"
  shows "\<exists>f l. forward P X = Inr (v_a1 f, v_scores f)
     \<and> loss_body P X (v_a1 f) (v_scores f) y reg = Inr f
     \<and> loss P X (Some y) reg = Inr (LossGrads l (v_grads f))
     \<and> v_a1 f = tab N H (net_a1 D P X)
     \<and> v_heap f ! v_dscores f = tab N C (spec_dscores (net_probs D H C P X) y)
     \<and> v_da1 f = tab N H (spec_dA1 C (net_dscores D H C P X y) (ent (W2 P)) (net_a1 D P X))
     \<and> gW2 (v_grads f)
          = tab H C (spec_dW2 N reg (net_a1 D P X) (net_dscores D H C P X y) (ent (W2 P)))
     \<and> gb2 (v_grads f) = map (spec_db2 N (net_dscores D H C P X y)) [0..<C]
     \<and> gW1 (v_grads f)
          = tab D H (spec_dW1 N reg (ent X) (net_dA1 D H C P X y) (ent (W1 P)))
     \<and> gb1 (v_grads f) = map (spec_db1 N (net_dA1 D H C P X y)) [0..<H]"
proof (intro exI [of _ "net_frame N D H C P X y reg"] exI [of _ "net_loss N D H C P X y reg"]
    conjI)
  show "forward P X = Inr (v_a1 (net_frame N D H C P X y reg), v_scores (net_frame N D H C P X y reg))"
    using forward_shaped [OF assms(1,2,4,5,6)] by (simp add: net_frame_def)
  show "loss_body P X (v_a1 (net_frame N D H C P X y reg)) (v_scores (net_frame N D H C P X y reg))
          y reg = Inr (net_frame N D H C P X y reg)"
    using loss_body_frame [OF assms, of reg] by (simp add: net_frame_def)
  show "loss P X (Some y) reg
          = Inr (LossGrads (net_loss N D H C P X y reg) (v_grads (net_frame N D H C P X y reg)))"
    using loss_shaped_net [OF assms, of reg] by (simp add: net_frame_def)
qed (simp_all add: net_frame_def net_grads_def net_dscores_def net_dA1_def)

theorem backprop_equations_witness:
  "\<exists>f l. forward example_net example_X = Inr (v_a1 f, v_scores f)
     \<and> loss_body example_net example_X (v_a1 f) (v_scores f) [1] (1 / 2) = Inr f
     \<and> loss example_net example_X (Some [1]) (1 / 2) = Inr (LossGrads l (v_grads f))
     \<and> v_a1 f = tab 1 1 (net_a1 1 example_net example_X)
     \<and> v_heap f ! v_dscores f = tab 1 2 (spec_dscores (net_probs 1 1 2 example_net example_X) [1])
     \<and> v_da1 f = tab 1 1 (spec_dA1 2 (net_dscores 1 1 2 example_net example_X [1])
                             (ent (W2 example_net)) (net_a1 1 example_net example_X))
     \<and> gW2 (v_grads f)
          = tab 1 2 (spec_dW2 1 (1 / 2) (net_a1 1 example_net example_X)
                      (net_dscores 1 1 2 example_net example_X [1]) (ent (W2 example_net)))
     \<and> gb2 (v_grads f) = map (spec_db2 1 (net_dscores 1 1 2 example_net example_X [1])) [0..<2]
     \<and> gW1 (v_grads f)
          = tab 1 1 (spec_dW1 1 (1 / 2) (ent example_X)
                      (net_dA1 1 1 2 example_net example_X [1]) (ent (W1 example_net)))
     \<and> gb1 (v_grads f) = map (spec_db1 1 (net_dA1 1 1 2 example_net example_X [1])) [0..<1]"
  by (rule backprop_equations [where D = 1 and H = 1 and C = 2 and N = 1])
    (simp_all add: shaped_def mat_def labels_in_def example_net_def example_X_def)

subsection \<open>The loss\<close>



text \<open>
  In exact arithmetic the scalar of the model is strictly increasing in \<open>reg\<close> when the
  weight matrices are not both zero, everything else fixed. This is a fact about the
  formula over the real numbers only. The program adds the two terms of line 101 in
  float64, where a small regularization term is rounded away and a \<^verbatim>\<open>nan\<close> loss is
  not ordered, so the lemma says nothing about the order of the values the program
  returns.
\<close>

lemma real_loss_increasing_in_reg:
  assumes "shaped D H C P" "mat N D X" "labels_in N C y" "0 < N" "0 < D" "0 < H" "0 < C"
    and nz: "\<exists>w \<in> set (concat (W1 P) @ concat (W2 P)). w \<noteq> 0"
    and lt: "reg1 < reg2"
  shows "\<exists>l1 g1 l2 g2. loss P X (Some y) reg1 = Inr (LossGrads l1 g1)
     \<and> loss P X (Some y) reg2 = Inr (LossGrads l2 g2) \<and> l1 < l2"
proof -
  from nz obtain w where w: "w \<noteq> 0"
    and "w \<in> set (concat (W1 P)) \<or> w \<in> set (concat (W2 P))"
    by auto
  then have "0 < sum_sq (W1 P) \<or> 0 < sum_sq (W2 P)"
    using sum_sq_pos [of w "W1 P"] sum_sq_pos [of w "W2 P"] by blast
  with sum_sq_nonneg [of "W1 P"] sum_sq_nonneg [of "W2 P"]
  have pos: "0 < sum_sq (W1 P) + sum_sq (W2 P)"
    by linarith
  with lt have "reg1 * (sum_sq (W1 P) + sum_sq (W2 P)) < reg2 * (sum_sq (W1 P) + sum_sq (W2 P))"
    by simp
  then have "net_loss N D H C P X y reg1 < net_loss N D H C P X y reg2"
    by (simp add: net_loss_reg [OF assms(1), of N X y reg1]
        net_loss_reg [OF assms(1), of N X y reg2])
  then show ?thesis
    using loss_shaped_net [OF assms(1-7)] by blast
qed

subsection \<open>The two results of \<open>loss\<close>\<close>



subsection \<open>The buffer shared by \<open>softmax\<close> and \<open>dscores\<close>\<close>

text \<open>
  C10. Inside one call \<open>loss(X, y, reg)\<close> the backward pass builds \<open>dscores\<close> by
  subtracting 1 in place at each row's true-class position of the softmax matrix:
  the variable \<open>dscores\<close> holds the buffer of \<open>softmax\<close>, not a copy, so after the
  subtraction the array \<open>softmax\<close> no longer holds the forward-pass probabilities at
  those positions.
\<close>

theorem dscores_aliases_softmax:
  assumes "shaped D H C P" "mat N D X" "labels_in N C y" "0 < N" "0 < D" "0 < H" "0 < C"
  shows "\<exists>f. forward P X = Inr (v_a1 f, v_scores f)
     \<and> loss_body P X (v_a1 f) (v_scores f) y reg = Inr f
     \<and> v_dscores f = v_softmax f
     \<and> (\<forall>i<N. v_heap f ! v_softmax f ! i ! nat (y ! i)
                 = net_probs D H C P X i (nat (y ! i)) - 1
              \<and> v_heap f ! v_softmax f ! i ! nat (y ! i)
                 \<noteq> net_probs D H C P X i (nat (y ! i)))"
proof -
  have "nat (y ! i) < C" if "i < N" for i
    using assms(3) that by (auto simp: labels_in_def list_all_length)
  then have sub: "\<forall>i<N. v_heap (net_frame N D H C P X y reg) ! v_softmax (net_frame N D H C P X y reg)
                   ! i ! nat (y ! i) = net_probs D H C P X i (nat (y ! i)) - 1
              \<and> v_heap (net_frame N D H C P X y reg) ! v_softmax (net_frame N D H C P X y reg)
                   ! i ! nat (y ! i) \<noteq> net_probs D H C P X i (nat (y ! i))"
    by (simp add: net_frame_def net_dscores_def spec_dscores_def)
  show ?thesis
  proof (intro exI [of _ "net_frame N D H C P X y reg"] conjI)
    show "forward P X
            = Inr (v_a1 (net_frame N D H C P X y reg), v_scores (net_frame N D H C P X y reg))"
      using forward_shaped [OF assms(1,2,4,5,6)] by (simp add: net_frame_def)
    show "loss_body P X (v_a1 (net_frame N D H C P X y reg))
            (v_scores (net_frame N D H C P X y reg)) y reg = Inr (net_frame N D H C P X y reg)"
      using loss_body_frame [OF assms, of reg] by (simp add: net_frame_def)
    show "v_dscores (net_frame N D H C P X y reg) = v_softmax (net_frame N D H C P X y reg)"
      by (simp add: net_frame_def)
  qed (rule sub)
qed

theorem dscores_aliases_softmax_witness:
  "\<exists>f. forward example_net example_X = Inr (v_a1 f, v_scores f)
     \<and> loss_body example_net example_X (v_a1 f) (v_scores f) [1] 0 = Inr f
     \<and> v_dscores f = v_softmax f
     \<and> v_heap f ! v_softmax f ! 0 ! 1 = net_probs 1 1 2 example_net example_X 0 1 - 1
     \<and> v_heap f ! v_softmax f ! 0 ! 1 \<noteq> net_probs 1 1 2 example_net example_X 0 1"
proof -
  have s: "shaped 1 1 2 example_net" and x: "mat 1 1 example_X" and y: "labels_in 1 2 [1]"
    by (simp_all add: shaped_def mat_def labels_in_def example_net_def example_X_def)
  from dscores_aliases_softmax [OF s x y, of 0] show ?thesis
    by simp
qed


subsection \<open>Prediction on well-shaped inputs\<close>

lemma argmax_from_bound: "bi < i \<Longrightarrow> argmax_from bi bv i xs < i + length xs"
proof (induction xs arbitrary: bi bv i)
  case Nil
  then show ?case by simp
next
  case (Cons x xs)
  have a: "argmax_from i x (Suc i) xs < Suc i + length xs"
    by (rule Cons.IH) simp
  have b: "argmax_from bi bv (Suc i) xs < Suc i + length xs"
    by (rule Cons.IH) (use Cons.prems in simp)
  from a b show ?case by simp
qed

lemma argmax_nonempty: "xs \<noteq> [] \<Longrightarrow> \<exists>k. argmax xs = Inr k \<and> k < length xs"
proof (cases xs)
  case Nil
  assume "xs \<noteq> []" with Nil show ?thesis by simp
next
  case (Cons x r)
  have "argmax_from 0 x 1 r < 1 + length r"
    by (rule argmax_from_bound) simp
  with Cons show ?thesis by (simp add: argmax_def)
qed

lemma mapM_e_all:
  assumes "\<And>x. x \<in> set xs \<Longrightarrow> \<exists>v. f x = Inr v \<and> Q v"
  shows "\<exists>vs. mapM_e f xs = Inr vs \<and> length vs = length xs \<and> list_all Q vs"
  using assms
proof (induction xs)
  case Nil
  show ?case by simp
next
  case (Cons x xs)
  from Cons.prems [of x] obtain v where v: "f x = Inr v" "Q v" by auto
  from Cons.IH Cons.prems obtain vs where
    vs: "mapM_e f xs = Inr vs" "length vs = length xs" "list_all Q vs"
    by auto
  from v vs show ?case by simp
qed

lemma argmax_rows_tab:
  assumes "0 < C"
  shows "\<exists>ys. argmax_rows (tab N C s) = Inr ys \<and> length ys = N \<and> list_all (\<lambda>c. c < C) ys"
proof -
  have "\<exists>k. argmax r = Inr k \<and> k < C" if "r \<in> set (tab N C s)" for r
  proof -
    from that have "length r = C" by (auto simp: tab_def)
    with assms argmax_nonempty [of r] show ?thesis by auto
  qed
  from mapM_e_all [of "tab N C s" argmax "\<lambda>c. c < C", OF this]
  show ?thesis by (simp add: argmax_rows_def)
qed

lemma predict_forward: "predict P X = bind_e (forward P X) (\<lambda>(a, s). argmax_rows s)"
  by (simp add: predict_def forward_def bind_e_def Let_def split: sum.splits)

lemma predict_shaped:
  assumes "shaped D H C P" "mat N D X" "0 < N" "0 < D" "0 < H" "0 < C"
  shows "\<exists>ys. predict P X = Inr ys \<and> length ys = N \<and> list_all (\<lambda>c. c < C) ys"
  using argmax_rows_tab [OF assms(6), of N "net_scores D H P X"]
  by (simp add: predict_forward forward_shaped [OF assms(1-5)])

subsection \<open>One iteration and the loop of \<^verbatim>\<open>train\<close>\<close>

lemma take_idx_rows:
  assumes "mat N D X" "length idx = B" "list_all (\<lambda>i. i < N) idx"
  shows "take_idx X idx = Inr (map ((!) X) idx)" and "mat B D (map ((!) X) idx)"
proof -
  have "mapM_e (\<lambda>i. if i < length X then Inr (X ! i) else Inl IndexError) idx
          = Inr (map ((!) X) idx)"
    by (rule mapM_e_map) (use assms in \<open>auto simp: mat_def list_all_iff\<close>)
  then show "take_idx X idx = Inr (map ((!) X) idx)"
    by (simp add: take_idx_def)
  show "mat B D (map ((!) X) idx)"
    using assms by (auto simp: mat_def list_all_iff list_all_length)
qed

lemma take_idx_labels:
  assumes "labels_in N C y" "length idx = B" "list_all (\<lambda>i. i < N) idx"
  shows "take_idx y idx = Inr (map ((!) y) idx)" and "labels_in B C (map ((!) y) idx)"
proof -
  have "mapM_e (\<lambda>i. if i < length y then Inr (y ! i) else Inl IndexError) idx
          = Inr (map ((!) y) idx)"
    by (rule mapM_e_map) (use assms in \<open>auto simp: labels_in_def list_all_iff\<close>)
  then show "take_idx y idx = Inr (map ((!) y) idx)"
    by (simp add: take_idx_def)
  show "labels_in B C (map ((!) y) idx)"
    using assms by (auto simp: labels_in_def list_all_iff list_all_length)
qed

lemma isub_shaped:
  assumes "mat n m A" "0 < n"
  shows "\<exists>A'. isub A (scale lr (tab n m g)) = Inr A' \<and> mat n m A'"
proof -
  have "isub (tab n m (ent A)) (scale lr (tab n m g))
          = Inr (tab n m (\<lambda>i j. ent A i j - lr * g i j))"
    using assms(2) by (simp add: scale_tab isub_tab)
  with mat_ent [OF assms(1)] have "isub A (scale lr (tab n m g))
          = Inr (tab n m (\<lambda>i j. ent A i j - lr * g i j))"
    by simp
  then show ?thesis by simp
qed

lemma isub_vec_shaped:
  assumes "length a = n"
  shows "\<exists>a'. isub_vec a (scale_vec lr (map f [0..<n])) = Inr a' \<and> length a' = n"
  using assms by (simp add: isub_vec_def scale_vec_def bc_to_vec_def)

lemma accuracy_same_length: "length pred = length ys \<Longrightarrow> \<exists>r. accuracy pred ys = Inr r"
  by (simp add: accuracy_def)

lemma epoch_boundary_is: "ipe \<noteq> 0 \<Longrightarrow> epoch_boundary it ipe = Inr (is_boundary it ipe)"
  by (simp add: epoch_boundary_def py_mod_def is_boundary_def)

lemma train_step_ok:
  assumes ok: "train_ok D H C N Nv B a"
    and P: "shaped D H C (t_params s)"
    and ipe: "ipe \<noteq> 0"
    and dr: "valid_draws N B (a_draws a) it"
  shows "\<exists>s'. train_step a ipe it s = Inr s'
     \<and> shaped D H C (t_params s')
     \<and> t_learning_rate s'
         = (if is_boundary it ipe then t_learning_rate s * a_learning_rate_decay a
            else t_learning_rate s)
     \<and> length (loss_history s') = Suc (length (loss_history s))
     \<and> length (train_acc_history s')
         = length (train_acc_history s) + (if is_boundary it ipe then 1 else 0)
     \<and> length (val_acc_history s')
         = length (val_acc_history s) + (if is_boundary it ipe then 1 else 0)"
proof -
  let ?idx = "a_draws a it"
  let ?Xb = "map ((!) (a_X a)) ?idx" and ?yb = "map ((!) (a_y a)) ?idx"
  let ?lr = "t_learning_rate s"
  let ?g = "net_grads B D H C (t_params s) ?Xb ?yb (a_reg a)"
  from ok have X: "mat N D (a_X a)" and y: "labels_in N C (a_y a)"
    and Xv: "mat Nv D (a_X_val a)" and yv: "length (a_y_val a) = Nv"
    and pos: "0 < N" "0 < Nv" "0 < B" "0 < D" "0 < H" "0 < C"
    by (simp_all add: train_ok_def)
  from dr have len: "length ?idx = B" and rng: "list_all (\<lambda>i. i < N) ?idx"
    by (simp_all add: valid_draws_def)
  note xb = take_idx_rows [OF X len rng] and yb = take_idx_labels [OF y len rng]
  have nr: "nrows (a_X a) \<noteq> 0"
    using X pos by (simp add: nrows_def mat_def)
  have L: "loss (t_params s) ?Xb (Some ?yb) (a_reg a)
             = Inr (LossGrads (net_loss B D H C (t_params s) ?Xb ?yb (a_reg a)) ?g)"
    by (rule loss_shaped_net [OF P xb(2) yb(2) pos(3,4,5,6)])
  from P have sh: "mat D H (W1 (t_params s))" "length (b1 (t_params s)) = H"
    "mat H C (W2 (t_params s))" "length (b2 (t_params s)) = C"
    by (simp_all add: shaped_def)
  obtain W1' where W1': "isub (W1 (t_params s)) (scale ?lr (gW1 ?g)) = Inr W1'" "mat D H W1'"
    using isub_shaped [OF sh(1) pos(4)] by (auto simp: net_grads_def)
  obtain W2' where W2': "isub (W2 (t_params s)) (scale ?lr (gW2 ?g)) = Inr W2'" "mat H C W2'"
    using isub_shaped [OF sh(3) pos(5)] by (auto simp: net_grads_def)
  have "\<exists>v. isub_vec (b1 (t_params s)) (scale_vec ?lr (gb1 ?g)) = Inr v \<and> length v = H"
    by (simp add: net_grads_def isub_vec_shaped [OF sh(2)])
  then obtain b1' where b1': "isub_vec (b1 (t_params s)) (scale_vec ?lr (gb1 ?g)) = Inr b1'"
    "length b1' = H"
    by blast
  have "\<exists>v. isub_vec (b2 (t_params s)) (scale_vec ?lr (gb2 ?g)) = Inr v \<and> length v = C"
    by (simp add: net_grads_def isub_vec_shaped [OF sh(4)])
  then obtain b2' where b2': "isub_vec (b2 (t_params s)) (scale_vec ?lr (gb2 ?g)) = Inr b2'"
    "length b2' = C"
    by blast
  let ?P' = "\<lparr>W1 = W1', b1 = b1', W2 = W2', b2 = b2'\<rparr>"
  have P': "shaped D H C ?P'"
    using W1'(2) W2'(2) b1'(2) b2'(2) by (simp add: shaped_def)
  obtain pb where pb: "predict ?P' ?Xb = Inr pb" "length pb = B"
    using predict_shaped [OF P' xb(2) pos(3,4,5,6)] by auto
  obtain pv where pv: "predict ?P' (a_X_val a) = Inr pv" "length pv = Nv"
    using predict_shaped [OF P' Xv pos(2,4,5,6)] by auto
  obtain ta where ta: "accuracy pb ?yb = Inr ta"
    using accuracy_same_length [of pb ?yb] pb(2) len by auto
  obtain va where va: "accuracy pv (a_y_val a) = Inr va"
    using accuracy_same_length [of pv "a_y_val a"] pv(2) yv by auto
  show ?thesis
    using nr xb(1) yb(1) L W1'(1) W2'(1) b1'(1) b2'(1) pb(1) pv(1) ta va P'
    by (simp add: train_step_def epoch_boundary_is [OF ipe] Let_def)
qed

lemma boundaries_0: "boundaries ipe 0 = 0"
  by (simp add: boundaries_def)

lemma boundaries_Suc:
  "boundaries ipe (Suc k) = boundaries ipe k + (if is_boundary k ipe then 1 else 0)"
  by (simp add: boundaries_def)

lemma train_iters_ok:
  assumes ok: "train_ok D H C N Nv B a"
    and P: "shaped D H C P"
    and ipe: "ipe \<noteq> 0"
    and dr: "\<And>it. it < K \<Longrightarrow> valid_draws N B (a_draws a) it"
  shows "k \<le> K \<Longrightarrow>
    \<exists>s. train_iters a ipe (train_start P a) k = Inr s
      \<and> shaped D H C (t_params s)
      \<and> t_learning_rate s = a_learning_rate a * a_learning_rate_decay a ^ boundaries ipe k
      \<and> length (loss_history s) = k
      \<and> length (train_acc_history s) = boundaries ipe k
      \<and> length (val_acc_history s) = boundaries ipe k"
proof (induction k)
  case 0
  show ?case using P by (simp add: train_start_def boundaries_0)
next
  case (Suc k)
  then obtain s where s: "train_iters a ipe (train_start P a) k = Inr s"
    "shaped D H C (t_params s)"
    "t_learning_rate s = a_learning_rate a * a_learning_rate_decay a ^ boundaries ipe k"
    "length (loss_history s) = k"
    "length (train_acc_history s) = boundaries ipe k"
    "length (val_acc_history s) = boundaries ipe k"
    by auto
  from Suc.prems have "valid_draws N B (a_draws a) k"
    by (intro dr) simp
  from train_step_ok [OF ok s(2) ipe this] s
  show ?case
    by (auto simp: boundaries_Suc)
qed

lemma iterations_per_epoch_ok:
  "0 < B \<Longrightarrow> iterations_per_epoch N B = Inr (max (real N / real B) 1)
     \<and> max (real N / real B) 1 \<noteq> 0"
  by (simp add: iterations_per_epoch_def max_def)

lemma train_result:
  assumes ok: "train_ok D H C N Nv B a"
    and P: "shaped D H C P"
    and dr: "\<And>it. it < a_num_iters a \<Longrightarrow> valid_draws N B (a_draws a) it"
  shows "\<exists>s. train P a = Inr s
      \<and> shaped D H C (t_params s)
      \<and> t_learning_rate s = a_learning_rate a
           * a_learning_rate_decay a ^ boundaries (max (real N / real B) 1) (a_num_iters a)
      \<and> length (loss_history s) = a_num_iters a
      \<and> length (train_acc_history s) = boundaries (max (real N / real B) 1) (a_num_iters a)
      \<and> length (val_acc_history s) = boundaries (max (real N / real B) 1) (a_num_iters a)"
proof -
  from ok have B: "0 < B" "a_batch_size a = B" and N: "nrows (a_X a) = N"
    by (simp_all add: train_ok_def mat_def nrows_def)
  note i = iterations_per_epoch_ok [OF B(1), of N]
  from train_iters_ok [OF ok P conjunct2 [OF i] dr, of "a_num_iters a" "a_num_iters a"]
  show ?thesis
    using i B N by (simp add: train_def)
qed

lemma init_shaped: "mat D H r1 \<Longrightarrow> mat H C r2 \<Longrightarrow> shaped D H C (init D H C std r1 r2)"
  by (simp add: init_def shaped_def scale_def mat_def list_all_iff)

lemma is_boundary_nat:
  assumes "0 < E"
  shows "is_boundary it (real E) = (it mod E = 0)"
proof -
  have f: "\<lfloor>real it / real E\<rfloor> = int (it div E)"
    by (simp add: floor_divide_of_nat_eq)
  have "real (it mod E) + real E * real (it div E) = real it"
    by (simp flip: of_nat_mult of_nat_add)
  then have "real it - real E * real (it div E) = real (it mod E)"
    by linarith
  then show ?thesis
    by (simp add: is_boundary_def f)
qed

lemma example_train_ok: "train_ok 1 1 2 5 1 2 example_train"
  by (simp add: train_ok_def example_train_def mat_def labels_in_def)

lemma example_net_shaped: "shaped 1 1 2 example_net"
  by (simp add: shaped_def example_net_def mat_def)

lemma example_draws: "valid_draws 5 2 (a_draws example_train) it"
  by (simp add: valid_draws_def example_train_def)

lemma example_boundaries: "boundaries (5 / 2) 4 = 1"
proof -
  have b: "is_boundary 0 (5 / 2)" "\<not> is_boundary 1 (5 / 2)" "\<not> is_boundary 2 (5 / 2)"
    "\<not> is_boundary 3 (5 / 2)"
    by (simp_all add: is_boundary_def)
  have "boundaries (5 / 2) (Suc (Suc (Suc (Suc 0)))) = 1"
    using b by (simp add: boundaries_Suc boundaries_0 numeral_2_eq_2 numeral_3_eq_3)
  then show ?thesis
    by (simp add: eval_nat_numeral)
qed

subsection \<open>Inputs that \<^verbatim>\<open>loss\<close> does not expect\<close>

lemma ncols_mat: "mat n m A \<Longrightarrow> 0 < n \<Longrightarrow> ncols A = m"
  by (cases A) (simp_all add: mat_def ncols_def)

lemma forward_bad_dim:
  assumes "shaped D H C P" "mat N D' X" "0 < N" "D' \<noteq> D"
  shows "forward P X = Inl ValueError"
  using assms ncols_mat [OF assms(2,3)]
  by (simp add: forward_def matmul_def shaped_def mat_def nrows_def)

lemma mapM_e_fail:
  assumes "\<And>x e'. x \<in> set xs \<Longrightarrow> f x = Inl e' \<Longrightarrow> e' = e"
  shows "\<exists>x \<in> set xs. isl (f x) \<Longrightarrow> mapM_e f xs = Inl e"
  using assms
proof (induction xs)
  case Nil
  then show ?case by simp
next
  case (Cons x xs)
  show ?case
  proof (cases "f x")
    case (Inl e')
    with Cons.prems(2) [of x e'] show ?thesis by simp
  next
    case (Inr v)
    with Cons.prems(1) have "\<exists>x \<in> set xs. isl (f x)" by auto
    then have "mapM_e f xs = Inl e"
      by (rule Cons.IH) (use Cons.prems(2) in auto)
    with Inr show ?thesis by simp
  qed
qed

lemma norm_index_cases:
  "norm_index n i = (if - int n \<le> i \<and> i < int n then Inr (wrap n i) else Inl IndexError)"
  by (simp add: norm_index_def wrap_def)

lemma wrap_int: "wrap n (int i) = i"
  by (simp add: wrap_def)

lemma norm_pair_tab:
  assumes "0 < N" "i < N"
  shows "norm_pair (tab N C p) (int i, l)
           = (if - int C \<le> l \<and> l < int C then Inr (i, wrap C l) else Inl IndexError)"
  using assms by (simp add: norm_pair_def norm_index_cases wrap_int)

lemma fancy_get_bad_label:
  assumes "0 < N" "length y = N" "\<not> labels_ok N C y"
  shows "fancy_get (tab N C p) (arange N) y = Inl IndexError"
proof -
  let ?ps = "map (\<lambda>i. (int i, y ! i)) [0..<N]"
  from assms(2,3) obtain i where i: "i < N" "\<not> (- int C \<le> y ! i \<and> y ! i < int C)"
    by (auto simp: labels_ok_def list_all_length)
  have "mapM_e (norm_pair (tab N C p)) ?ps = Inl IndexError"
  proof (rule mapM_e_fail)
    fix x e' assume "x \<in> set ?ps" "norm_pair (tab N C p) x = Inl e'"
    then show "e' = IndexError"
      using assms(1) by (auto simp: norm_pair_tab split: if_splits)
  next
    have "(int i, y ! i) \<in> set ?ps" using i(1) by auto
    moreover have "isl (norm_pair (tab N C p) (int i, y ! i))"
      using i assms(1) by (simp add: norm_pair_tab)
    ultimately show "\<exists>x \<in> set ?ps. isl (norm_pair (tab N C p) x)"
      by blast
  qed
  then show ?thesis
    using assms(2)
    by (simp add: fancy_get_def bc_index_def arange_def[THEN arg_cong, of length] zip_arange)
qed

lemma loss_body_bad_label:
  assumes "0 < N" "length y = N" "\<not> labels_ok N C y" "nrows X = N"
  shows "loss_body P X A (tab N C s) y reg = Inl IndexError"
  using assms
  by (simp add: loss_body_def alloc_def map_map_tab softmax_rows_tab fancy_get_bad_label)

lemma loss_bad_label:
  assumes "shaped D H C P" "mat N D X" "0 < N" "0 < D" "0 < H"
    and "length y = N" "\<not> labels_ok N C y"
  shows "loss P X (Some y) reg = Inl IndexError"
proof -
  from assms(2) have "nrows X = N" by (simp add: mat_def nrows_def)
  with assms show ?thesis
    by (simp add: loss_def forward_shaped loss_body_bad_label)
qed

lemma wrap_wrap: "- int n \<le> l \<Longrightarrow> l < int n \<Longrightarrow> wrap n (int (wrap n l)) = wrap n l"
  by (simp add: wrap_def)

lemma labels_wrapped:
  assumes "labels_ok N C y"
  shows "labels_in N C (map (\<lambda>l. int (wrap C l)) y)"
  using assms by (auto simp: labels_ok_def labels_in_def list_all_iff wrap_def)

lemma fancy_get_wrapped:
  assumes "0 < N" "labels_ok N C y"
  shows "fancy_get (tab N C p) (arange N) (map (\<lambda>l. int (wrap C l)) y)
           = fancy_get (tab N C p) (arange N) y"
proof -
  have len: "length y = N" using assms(2) by (simp add: labels_ok_def)
  have "map (\<lambda>i. p i (wrap C (map (\<lambda>l. int (wrap C l)) y ! i))) [0..<N]
          = map (\<lambda>i. p i (wrap C (y ! i))) [0..<N]"
    using labels_okD [OF assms(2)] by (simp add: len wrap_wrap)
  then show ?thesis
    by (simp add: fancy_get_tab [OF assms]
        fancy_get_tab [OF assms(1) labels_in_ok [OF labels_wrapped [OF assms(2)]]])
qed

lemma fancy_isub_wrapped:
  assumes "0 < N" "labels_ok N C y"
  shows "fancy_isub (tab N C p) (arange N) (map (\<lambda>l. int (wrap C l)) y) c
           = fancy_isub (tab N C p) (arange N) y c"
proof -
  have len: "length y = N" using assms(2) by (simp add: labels_ok_def)
  have "tab N C (\<lambda>i j. if j = wrap C (map (\<lambda>l. int (wrap C l)) y ! i) then p i j - c else p i j)
          = tab N C (\<lambda>i j. if j = wrap C (y ! i) then p i j - c else p i j)"
    by (rule tab_cong) (use labels_okD [OF assms(2)] in \<open>simp add: len wrap_wrap\<close>)
  then show ?thesis
    by (simp add: fancy_isub_tab [OF assms]
        fancy_isub_tab [OF assms(1) labels_in_ok [OF labels_wrapped [OF assms(2)]]])
qed

lemma loss_body_wrapped:
  assumes "0 < N" "labels_ok N C y" "nrows X = N"
  shows "loss_body P X A (tab N C s) (map (\<lambda>l. int (wrap C l)) y) reg
           = loss_body P X A (tab N C s) y reg"
  using assms
  by (simp add: loss_body_def alloc_def view_all_def map_map_tab softmax_rows_tab
      fancy_get_wrapped fancy_isub_wrapped)

lemma loss_wrapped:
  assumes "shaped D H C P" "mat N D X" "0 < N" "0 < D" "0 < H" "labels_ok N C y"
  shows "loss P X (Some (map (\<lambda>l. int (wrap C l)) y)) reg = loss P X (Some y) reg"
proof -
  from assms(2) have "nrows X = N" by (simp add: mat_def nrows_def)
  with assms show ?thesis
    by (simp add: loss_def forward_shaped loss_body_wrapped)
qed

subsection \<open>Predicted labels\<close>

text \<open>
  C8. For every input matrix \<open>X\<close> with \<open>N\<close> rows compatible with the parameter shapes,
  \<open>predict(X)\<close> returns an integer vector of length \<open>N\<close> whose entries lie in
  \<open>[0, C)\<close>, \<open>C\<close> the number of columns of \<open>W2\<close>. The result is a function of the
  parameters and of \<open>X\<close> alone: \<open>predict\<close> takes no other argument, in particular
  no draw of the random generator.
\<close>

theorem predict_labels:
  assumes "shaped D H C P" "mat N D X" "0 < N" "0 < D" "0 < H" "0 < C"
  shows "\<exists>ys. predict P X = Inr ys \<and> length ys = N \<and> list_all (\<lambda>c. c < C) ys
     \<and> ncols (W2 P) = C"
proof -
  have "ncols (W2 P) = C"
    using assms(1,5) ncols_mat [of H C "W2 P"] by (simp add: shaped_def)
  with predict_shaped [OF assms] show ?thesis
    by blast
qed

theorem predict_labels_witness:
  "\<exists>ys. predict example_net example_X = Inr ys \<and> length ys = 1 \<and> list_all (\<lambda>c. c < 2) ys
     \<and> ncols (W2 example_net) = 2"
  by (rule predict_labels [where D = 1 and H = 1 and C = 2 and N = 1])
    (simp_all add: shaped_def mat_def example_net_def example_X_def)

subsection \<open>Shapes of the parameters during training\<close>

text \<open>
  C9. After every gradient-update step of the training loop the four parameter arrays
  \<open>W1\<close>, \<open>b1\<close>, \<open>W2\<close>, \<open>b2\<close> have the shapes \<open>(D, H)\<close>, \<open>(H)\<close>, \<open>(H, C)\<close>, \<open>(C)\<close>
  they had at construction, and this holds after every one of the \<open>num_iters\<close>
  iterations of \<open>train\<close>. Here \<open>train_iters \<dots> k\<close> is the state after \<open>k\<close> iterations,
  and the theorem also shows that no iteration raises.
\<close>

theorem train_preserves_shapes:
  assumes "train_ok D H C N Nv B a"
    and "mat D H randn1" "mat H C randn2"
    and "\<And>it. it < a_num_iters a \<Longrightarrow> valid_draws N B (a_draws a) it"
  shows "shaped D H C (init D H C std randn1 randn2)
     \<and> (\<forall>k \<le> a_num_iters a. \<exists>s.
           train_iters a (max (real N / real B) 1)
             (train_start (init D H C std randn1 randn2) a) k = Inr s
           \<and> shaped D H C (t_params s))
     \<and> (\<exists>s. train (init D H C std randn1 randn2) a = Inr s \<and> shaped D H C (t_params s))"
proof (intro conjI allI impI)
  show P: "shaped D H C (init D H C std randn1 randn2)"
    by (rule init_shaped [OF assms(2,3)])
  from assms(1) have "0 < B"
    by (simp add: train_ok_def)
  then have ipe: "max (real N / real B) 1 \<noteq> 0"
    by (simp add: iterations_per_epoch_ok)
  fix k assume "k \<le> a_num_iters a"
  from train_iters_ok [OF assms(1) P ipe assms(4) this]
  show "\<exists>s. train_iters a (max (real N / real B) 1)
               (train_start (init D H C std randn1 randn2) a) k = Inr s
          \<and> shaped D H C (t_params s)"
    by blast
next
  have "shaped D H C (init D H C std randn1 randn2)"
    by (rule init_shaped [OF assms(2,3)])
  from train_result [OF assms(1) this assms(4)]
  show "\<exists>s. train (init D H C std randn1 randn2) a = Inr s \<and> shaped D H C (t_params s)"
    by blast
qed

theorem train_preserves_shapes_witness:
  "shaped 1 1 2 (init 1 1 2 1 [[1]] [[1, 2]])
     \<and> (\<exists>s. train (init 1 1 2 1 [[1]] [[1, 2]]) example_train = Inr s
           \<and> shaped 1 1 2 (t_params s))"
proof -
  have r: "mat 1 1 [[1]]" "mat 1 2 [[1, 2]]"
    by (simp_all add: mat_def)
  from train_preserves_shapes [OF example_train_ok r example_draws, of 1]
  show ?thesis by blast
qed


subsection \<open>Epoch boundaries\<close>

text \<open>
  C3. The claim: the epoch length is \<open>max(1, floor(num_train / batch_size))\<close> and the
  accuracy measurement and the decay fire exactly at the iterations that are multiples of
  it. With 5 training rows and batches of 2 the code computes the epoch length 5/2, not
  2, and iteration 2, a multiple of \<open>max 1 (5 div 2) = 2\<close>, is not an epoch boundary:
  a run of 4 iterations measures the accuracy once (at iteration 0), not twice.
\<close>

theorem epoch_boundary_true_division:
  "iterations_per_epoch 5 2 = Inr (5 / 2) \<and> epoch_boundary 2 (5 / 2) = Inr False
   \<and> max (1::nat) (5 div 2) = 2 \<and> (2::nat) mod max 1 (5 div 2) = 0
   \<and> (\<exists>s. train example_net example_train = Inr s
         \<and> length (loss_history s) = 4 \<and> length (train_acc_history s) = 1
         \<and> length (val_acc_history s) = 1)"
proof -
  have a: "iterations_per_epoch 5 2 = Inr (5 / 2)"
    by (simp add: iterations_per_epoch_def)
  have b: "epoch_boundary 2 (5 / 2) = Inr False"
    by (simp add: epoch_boundary_def py_mod_def bind_e_def)
  have c: "max (1::nat) (5 div 2) = 2 \<and> (2::nat) mod max 1 (5 div 2) = 0"
    by code_simp
  have d: "\<exists>s. train example_net example_train = Inr s
         \<and> length (loss_history s) = 4 \<and> length (train_acc_history s) = 1
         \<and> length (val_acc_history s) = 1"
    using train_result [OF example_train_ok example_net_shaped example_draws]
    by (simp add: example_train_def example_boundaries) blast
  from a b c d show ?thesis by blast
qed

text \<open>
  C4. The claim: after \<open>k\<close> completed epochs the learning rate used for the updates is
  the initial rate times \<open>decay ^ k\<close>. The run above (initial rate 1, decay 1/2) has
  completed \<open>k = 2\<close> epochs of \<open>floor(5/2) = 2\<close> iterations each when it returns; the
  claim gives the rate \<open>1 * (1/2) ^ 2 = 1/4\<close>, the code has decayed once and holds 1/2.
\<close>

theorem learning_rate_after_two_epochs:
  "a_num_iters example_train = 2 * max 1 (5 div 2)
   \<and> a_learning_rate example_train * a_learning_rate_decay example_train ^ 2 = 1 / 4
   \<and> (\<exists>s. train example_net example_train = Inr s \<and> t_learning_rate s = 1 / 2)"
proof -
  have a: "a_num_iters example_train = 2 * max 1 (5 div 2)"
    by (simp add: example_train_def)
  have b: "a_learning_rate example_train * a_learning_rate_decay example_train ^ 2 = 1 / 4"
    by (simp add: example_train_def power2_eq_square)
  have c: "\<exists>s. train example_net example_train = Inr s \<and> t_learning_rate s = 1 / 2"
    using train_result [OF example_train_ok example_net_shaped example_draws]
    by (simp add: example_train_def example_boundaries) blast
  from a b c show ?thesis by blast
qed


subsection \<open>Malformed inputs\<close>

text \<open>
  C5. The claim: for an input whose feature dimension differs from that of \<open>W1\<close>, or
  with a label outside \<open>[0, C)\<close>, \<open>loss\<close> fails with a shape-mismatch error before it
  performs the matrix operations. The label \<open>-1\<close> is outside \<open>[0, 2)\<close>, and the call
  returns a result: the one for the label 1.
\<close>

theorem negative_label_accepted:
  "loss example_net example_X (Some [- 1]) 0 = loss example_net example_X (Some [1]) 0
   \<and> \<not> isl (loss example_net example_X (Some [- 1]) 0)"
proof -
  have s: "shaped 1 1 2 example_net" and x: "mat 1 1 example_X"
    and y: "labels_ok 1 2 [- 1]" and y': "labels_in 1 2 [1]"
    by (simp_all add: shaped_def mat_def labels_ok_def labels_in_def example_net_def
        example_X_def)
  have "loss example_net example_X (Some (map (\<lambda>l. int (wrap 2 l)) [- 1])) 0
          = loss example_net example_X (Some [- 1]) 0"
    by (rule loss_wrapped [OF s x _ _ _ y]) simp_all
  then have e: "loss example_net example_X (Some [- 1]) 0
                  = loss example_net example_X (Some [1]) 0"
    by (simp add: wrap_def)
  have "\<not> isl (loss example_net example_X (Some [1]) 0)"
    using loss_shaped_net [OF s x y', of 0] by simp
  with e show ?thesis by simp
qed

text \<open>
  C5, as the code behaves. \<open>loss\<close> validates nothing itself. For parameters of shapes
  \<open>(D, H, C)\<close>, an \<open>X\<close> with \<open>N\<close> rows of \<open>D'\<close> features and \<open>N\<close> labels:
  if \<open>D' \<noteq> D\<close> the first matrix product raises ValueError; if \<open>D' = D\<close> and some label is
  below \<open>-C\<close> or at least \<open>C\<close>, the forward pass completes and the indexing of the softmax
  matrix raises IndexError; if \<open>D' = D\<close> and all labels are in \<open>[-C, C)\<close> the call returns
  the loss and the gradients, a label \<open>l < 0\<close> counting as the class \<open>C + l\<close>.
\<close>

theorem loss_input_errors:
  assumes "shaped D H C P" "mat N D' X" "length y = N" "0 < N" "0 < D" "0 < H" "0 < C"
  shows "(D' \<noteq> D \<longrightarrow> forward P X = Inl ValueError \<and> loss P X (Some y) reg = Inl ValueError)
     \<and> (D' = D \<and> \<not> labels_ok N C y \<longrightarrow>
          \<not> isl (forward P X) \<and> loss P X (Some y) reg = Inl IndexError)
     \<and> (D' = D \<and> labels_ok N C y \<longrightarrow>
          loss P X (Some y) reg = loss P X (Some (map (\<lambda>l. int (wrap C l)) y)) reg
          \<and> labels_in N C (map (\<lambda>l. int (wrap C l)) y)
          \<and> (\<exists>l g. loss P X (Some y) reg = Inr (LossGrads l g)))"
proof (intro conjI impI)
  assume "D' \<noteq> D"
  then show "forward P X = Inl ValueError"
    by (rule forward_bad_dim [OF assms(1,2,4)])
  then show "loss P X (Some y) reg = Inl ValueError"
    by (simp add: loss_def)
next
  assume a: "D' = D \<and> \<not> labels_ok N C y"
  with assms show "\<not> isl (forward P X)"
    by (simp add: forward_shaped)
  from a assms show "loss P X (Some y) reg = Inl IndexError"
    by (simp add: loss_bad_label)
next
  assume a: "D' = D \<and> labels_ok N C y"
  with assms have w: "loss P X (Some (map (\<lambda>l. int (wrap C l)) y)) reg = loss P X (Some y) reg"
    by (simp add: loss_wrapped)
  then show "loss P X (Some y) reg = loss P X (Some (map (\<lambda>l. int (wrap C l)) y)) reg"
    by simp
  from a show in': "labels_in N C (map (\<lambda>l. int (wrap C l)) y)"
    by (simp add: labels_wrapped)
  from a assms have "mat N D X" by simp
  from loss_shaped_net [OF assms(1) this in' assms(4-7), of reg] w
  show "\<exists>l g. loss P X (Some y) reg = Inr (LossGrads l g)"
    by simp
qed

theorem loss_input_errors_witness:
  "loss example_net [[1, 2]] (Some [1]) 0 = Inl ValueError
   \<and> loss example_net example_X (Some [2]) 0 = Inl IndexError
   \<and> loss example_net example_X (Some [- 3]) 0 = Inl IndexError
   \<and> (\<exists>l g. loss example_net example_X (Some [- 2]) 0 = Inr (LossGrads l g))"
proof -
  have s: "shaped 1 1 2 example_net" and x: "mat 1 1 example_X" and x2: "mat 1 2 [[1, 2]]"
    and y: "\<not> labels_ok 1 2 [2]" "\<not> labels_ok 1 2 [- 3]" "labels_ok 1 2 [- 2]"
    by (simp_all add: shaped_def mat_def labels_ok_def example_net_def example_X_def)
  have p: "(0::nat) < 1" "(0::nat) < 2" "(2::nat) \<noteq> 1"
    by simp_all
  have l: "length [1::int] = 1" "length [2::int] = 1" "length [- 3::int] = 1"
    "length [- 2::int] = 1"
    by simp_all
  from loss_input_errors [OF s x2 l(1) p(1) p(1) p(1) p(2), of 0] p(3)
  have a: "loss example_net [[1, 2]] (Some [1]) 0 = Inl ValueError"
    by blast
  from loss_input_errors [OF s x l(2) p(1) p(1) p(1) p(2), of 0] y(1)
  have b: "loss example_net example_X (Some [2]) 0 = Inl IndexError"
    by blast
  from loss_input_errors [OF s x l(3) p(1) p(1) p(1) p(2), of 0] y(2)
  have c: "loss example_net example_X (Some [- 3]) 0 = Inl IndexError"
    by blast
  from loss_input_errors [OF s x l(4) p(1) p(1) p(1) p(2), of 0] y(3)
  have d: "\<exists>l g. loss example_net example_X (Some [- 2]) 0 = Inr (LossGrads l g)"
    by blast
  from a b c d show ?thesis by blast
qed


end
